theory Spec2Isabelle
  imports Main "HOL-Library.AList"
begin

section \<open>Data model\<close>

text \<open>
  The hosted store holds two tables that matter here, declared by the SQL migration:
  \<^verbatim>\<open>public.profiles\<close> and \<^verbatim>\<open>public.api_calls\<close>. A row is a record of its columns;
  a nullable column is an \<open>option\<close>. Columns of \<^verbatim>\<open>profiles\<close> carry the prefix \<open>p_\<close>,
  columns of \<^verbatim>\<open>api_calls\<close> the prefix \<open>c_\<close>. A \<^verbatim>\<open>UUID\<close> is a string, a timestamp
  an integer, and a JavaScript \<^verbatim>\<open>number\<close> that holds an SQL \<^verbatim>\<open>INTEGER\<close> or the
  result of \<^verbatim>\<open>parseInt\<close> is an \<open>int\<close>.
\<close>

type_synonym uuid = string
type_synonym timestamp = int
type_synonym number = int

datatype json =
    JNull
  | JBool bool
  | JNum int
  | JStr string
  | JArr "json list"
  | JObj "(string \<times> json) list"

record profile_row =
  p_id :: uuid
  p_user_id :: uuid
  p_email :: "string option"
  p_full_name :: "string option"
  p_credits :: int
  p_is_admin :: bool
  p_created_at :: timestamp

record api_call_row =
  c_id :: uuid
  c_user_id :: uuid
  c_bin :: string
  c_quantity :: int
  c_credits_used :: int
  c_success :: bool
  c_response_data :: "json option"
  c_error_message :: "json option"
  c_created_at :: timestamp

section \<open>The admin predicate of the migration\<close>

text \<open>
  \<^verbatim>\<open>
  CREATE OR REPLACE FUNCTION public.is_admin(user_id uuid) RETURNS boolean ... AS $$
    SELECT EXISTS (
      SELECT 1 FROM public.profiles
      WHERE profiles.user_id = is_admin.user_id AND profiles.is_admin = true)
  $$;
  \<close>
  SQL comparisons are three-valued: a comparison with \<^verbatim>\<open>NULL\<close> is \<^verbatim>\<open>NULL\<close> (here \<open>None\<close>),
  and \<^verbatim>\<open>WHERE\<close> keeps the rows whose condition is true. The argument may be \<^verbatim>\<open>NULL\<close>
  (\<^verbatim>\<open>auth.uid()\<close> of an anonymous session); both columns are \<^verbatim>\<open>NOT NULL\<close>.
\<close>

definition sql_eq :: "'a option \<Rightarrow> 'a option \<Rightarrow> bool option" where
  "sql_eq a b = (case a of None \<Rightarrow> None
                 | Some x \<Rightarrow> (case b of None \<Rightarrow> None | Some y \<Rightarrow> Some (x = y)))"

fun sql_and :: "bool option \<Rightarrow> bool option \<Rightarrow> bool option" where
  "sql_and (Some False) b = Some False"
| "sql_and a (Some False) = Some False"
| "sql_and (Some True) (Some True) = Some True"
| "sql_and a b = None"

definition sql_where :: "('r \<Rightarrow> bool option) \<Rightarrow> 'r list \<Rightarrow> 'r list" where
  "sql_where cond rows = filter (\<lambda>r. cond r = Some True) rows"

definition sql_exists :: "'a list \<Rightarrow> bool" where
  "sql_exists rows = (rows \<noteq> [])"

definition is_admin :: "profile_row list \<Rightarrow> uuid option \<Rightarrow> bool" where
  "is_admin profiles user_id =
     sql_exists (map (\<lambda>r. 1 :: int)
       (sql_where (\<lambda>r. sql_and (sql_eq (Some (p_user_id r)) user_id)
                                (sql_eq (Some (p_is_admin r)) (Some True)))
          profiles))"

section \<open>The statistics fold of the admin panel\<close>

text \<open>
  \<^verbatim>\<open>fetchStats\<close> selects the columns \<^verbatim>\<open>success, credits_used\<close> of every visible call
  record and reduces them from an all-zero accumulator:
  \<^verbatim>\<open>
  data?.reduce((acc, call) => {
    acc.total_calls++;
    acc.total_credits_used += call.credits_used;
    if (call.success) { acc.successful_calls++; } else { acc.failed_calls++; }
    return acc;
  }, {total_calls: 0, successful_calls: 0, failed_calls: 0, total_credits_used: 0})
  || {total_calls: 0, successful_calls: 0, failed_calls: 0, total_credits_used: 0}
  \<close>
  A failed select throws into the \<^verbatim>\<open>catch\<close>, which only logs: the displayed statistics stay.
\<close>

datatype store_error = StoreError string

record stats_row =
  success :: bool
  credits_used :: int

record ApiCallStats =
  total_calls :: int
  successful_calls :: int
  failed_calls :: int
  total_credits_used :: int

definition stats_zero :: ApiCallStats where
  "stats_zero = \<lparr>total_calls = 0, successful_calls = 0, failed_calls = 0,
                  total_credits_used = 0\<rparr>"

definition stats_step :: "ApiCallStats \<Rightarrow> stats_row \<Rightarrow> ApiCallStats" where
  "stats_step acc call =
     (let acc1 = acc\<lparr>total_calls := total_calls acc + 1\<rparr>;
          acc2 = acc1\<lparr>total_credits_used := total_credits_used acc1 + credits_used call\<rparr>
      in if success call
         then acc2\<lparr>successful_calls := successful_calls acc2 + 1\<rparr>
         else acc2\<lparr>failed_calls := failed_calls acc2 + 1\<rparr>)"

definition reduce_stats :: "stats_row list option \<Rightarrow> ApiCallStats" where
  "reduce_stats data =
     (case data of None \<Rightarrow> stats_zero | Some calls \<Rightarrow> foldl stats_step stats_zero calls)"

record admin_panel =
  users :: "profile_row list"
  stats :: "ApiCallStats option"
  selectedUser :: string
  creditsToAdd :: number

definition fetchStats ::
  "store_error + stats_row list option \<Rightarrow> 'a admin_panel_scheme \<Rightarrow> 'a admin_panel_scheme" where
  "fetchStats response st =
     (case response of
        Inl error \<Rightarrow> st
      | Inr data \<Rightarrow> st\<lparr>stats := Some (reduce_stats data)\<rparr>)"

section \<open>The hosted store and the outside world\<close>

text \<open>
  The client talks to the store through the query builder; every call is one request. A
  request either fails with a store error, which the builder returns in the \<^verbatim>\<open>error\<close>
  field (it does not throw), or acts on the tables. The \<open>world\<close> keeps the two tables,
  the list of HTTP requests sent to the generator, the list of store requests issued and
  the notifications shown. The \<open>backend\<close> says how the outside answers during one
  operation: the outcome of the HTTP call, whether a store request of each kind fails,
  and the defaults the database fills in on insert (\<^verbatim>\<open>gen_random_uuid()\<close>, \<^verbatim>\<open>now()\<close>).
\<close>

record new_profile =
  np_user_id :: uuid
  np_email :: "string option"
  np_full_name :: "string option"
  np_credits :: int

record new_api_call =
  nc_user_id :: uuid
  nc_bin :: string
  nc_quantity :: int
  nc_credits_used :: int
  nc_success :: bool
  nc_response_data :: "json option"
  nc_error_message :: "json option"

datatype store_request =
    Select_profile uuid
  | Insert_profile new_profile
  | Select_recent_calls uuid
  | Insert_api_call new_api_call
  | Update_credits uuid int

text \<open>
  The notifications of the dashboard, by title: "Error" (failed to load profile data),
  "Insufficient credits", "Success!" (with the number of cards it prints), "API call
  failed" (with the description it prints) and "Request failed".
\<close>

datatype toast =
    Toast_load_profile_failed
  | Toast_insufficient_credits
  | Toast_success json
  | Toast_api_call_failed json
  | Toast_request_failed

text \<open>
  The HTTP call is two awaits, \<^verbatim>\<open>fetch(url)\<close> and \<^verbatim>\<open>response.json()\<close>. Either may
  reject; otherwise the call gives \<^verbatim>\<open>response.ok\<close> and the parsed body.
\<close>

datatype http_outcome =
    Fetch_rejects
  | Json_rejects bool
  | Responds bool json

record world =
  http_log :: "string list"
  store_log :: "store_request list"
  profiles :: "profile_row list"
  api_calls :: "api_call_row list"
  toasts :: "toast list"

record backend =
  http :: http_outcome
  select_fault :: "store_error option"
  insert_fault :: "store_error option"
  update_fault :: "store_error option"
  gen_random_uuid :: uuid
  now :: timestamp

definition issue :: "store_request \<Rightarrow> world \<Rightarrow> world" where
  "issue rq w = w\<lparr>store_log := store_log w @ [rq]\<rparr>"

definition show_toast :: "toast \<Rightarrow> world \<Rightarrow> world" where
  "show_toast t w = w\<lparr>toasts := toasts w @ [t]\<rparr>"

text \<open>
  \<^verbatim>\<open>from('profiles').select('*').eq('user_id', uid).maybeSingle()\<close>: no row gives
  \<^verbatim>\<open>null\<close>, one row gives the row, several rows are an error.
\<close>

definition select_profile ::
  "backend \<Rightarrow> uuid \<Rightarrow> world \<Rightarrow> (store_error + profile_row option) \<times> world" where
  "select_profile be uid w =
     (let w1 = issue (Select_profile uid) w in
      case select_fault be of
        Some e \<Rightarrow> (Inl e, w1)
      | None \<Rightarrow>
          (case filter (\<lambda>r. p_user_id r = uid) (profiles w) of
             [] \<Rightarrow> (Inr None, w1)
           | [r] \<Rightarrow> (Inr (Some r), w1)
           | r # r' # rs \<Rightarrow> (Inl (StoreError ''PGRST116''), w1)))"

text \<open>
  \<^verbatim>\<open>from('profiles').insert([row]).select().single()\<close>. The table declares
  \<^verbatim>\<open>user_id UUID NOT NULL UNIQUE\<close>, \<^verbatim>\<open>is_admin BOOLEAN NOT NULL DEFAULT FALSE\<close> and
  defaults for \<^verbatim>\<open>id\<close> and \<^verbatim>\<open>created_at\<close>; the inserted row is returned.
\<close>

definition insert_profile ::
  "backend \<Rightarrow> new_profile \<Rightarrow> world \<Rightarrow> (store_error + profile_row) \<times> world" where
  "insert_profile be np w =
     (let w1 = issue (Insert_profile np) w in
      case insert_fault be of
        Some e \<Rightarrow> (Inl e, w1)
      | None \<Rightarrow>
          if list_ex (\<lambda>r. p_user_id r = np_user_id np) (profiles w)
          then (Inl (StoreError ''23505''), w1)
          else (let row = \<lparr>p_id = gen_random_uuid be, p_user_id = np_user_id np,
                            p_email = np_email np, p_full_name = np_full_name np,
                            p_credits = np_credits np, p_is_admin = False,
                            p_created_at = now be\<rparr>
                in (Inr row, w1\<lparr>profiles := profiles w1 @ [row]\<rparr>)))"

text \<open>\<^verbatim>\<open>from('api_calls').insert([row])\<close>, with the defaults for \<^verbatim>\<open>id\<close> and \<^verbatim>\<open>created_at\<close>.\<close>

definition insert_api_call ::
  "backend \<Rightarrow> new_api_call \<Rightarrow> world \<Rightarrow> store_error option \<times> world" where
  "insert_api_call be nc w =
     (let w1 = issue (Insert_api_call nc) w in
      case insert_fault be of
        Some e \<Rightarrow> (Some e, w1)
      | None \<Rightarrow>
          (let row = \<lparr>c_id = gen_random_uuid be, c_user_id = nc_user_id nc, c_bin = nc_bin nc,
                       c_quantity = nc_quantity nc, c_credits_used = nc_credits_used nc,
                       c_success = nc_success nc, c_response_data = nc_response_data nc,
                       c_error_message = nc_error_message nc, c_created_at = now be\<rparr>
           in (None, w1\<lparr>api_calls := api_calls w1 @ [row]\<rparr>)))"

text \<open>\<^verbatim>\<open>from('profiles').update({ credits: n }).eq('user_id', uid)\<close>.\<close>

definition update_credits ::
  "backend \<Rightarrow> uuid \<Rightarrow> int \<Rightarrow> world \<Rightarrow> store_error option \<times> world" where
  "update_credits be uid n w =
     (let w1 = issue (Update_credits uid n) w in
      case update_fault be of
        Some e \<Rightarrow> (Some e, w1)
      | None \<Rightarrow>
          (None, w1\<lparr>profiles :=
             map (\<lambda>r. if p_user_id r = uid then r\<lparr>p_credits := n\<rparr> else r) (profiles w1)\<rparr>))"

text \<open>
  \<^verbatim>\<open>from('api_calls').select('*').eq('user_id', uid)
      .order('created_at', { ascending: false }).limit(5)\<close>.
  Records with the same creation time keep their order in the table; the database leaves
  that order open, and no property below depends on it.
\<close>

definition order_created_at_desc :: "api_call_row list \<Rightarrow> api_call_row list" where
  "order_created_at_desc rows = sort_key (\<lambda>r. - c_created_at r) rows"

definition select_recent_calls ::
  "backend \<Rightarrow> uuid \<Rightarrow> world \<Rightarrow> (store_error + api_call_row list option) \<times> world" where
  "select_recent_calls be uid w =
     (let w1 = issue (Select_recent_calls uid) w in
      case select_fault be of
        Some e \<Rightarrow> (Inl e, w1)
      | None \<Rightarrow>
          (Inr (Some (take 5 (order_created_at_desc
                    (filter (\<lambda>r. c_user_id r = uid) (api_calls w))))), w1))"

section \<open>JavaScript values\<close>

text \<open>
  Truthiness of a parsed JSON value, the read of a property (\<open>None\<close> is \<^verbatim>\<open>undefined\<close>;
  only an object has the properties read here) and the decimal text a template literal
  prints for an integer.
\<close>

fun truthy :: "json \<Rightarrow> bool" where
  "truthy JNull = False"
| "truthy (JBool b) = b"
| "truthy (JNum n) = (n \<noteq> 0)"
| "truthy (JStr s) = (s \<noteq> [])"
| "truthy (JArr xs) = True"
| "truthy (JObj kvs) = True"

fun get_prop :: "json \<Rightarrow> string \<Rightarrow> json option" where
  "get_prop (JObj kvs) k = map_of kvs k"
| "get_prop v k = None"

definition or_else :: "json option \<Rightarrow> json \<Rightarrow> json" where
  "or_else v d = (case v of None \<Rightarrow> d | Some x \<Rightarrow> if truthy x then x else d)"

definition or_null :: "string option \<Rightarrow> string option" where
  "or_null v = (case v of None \<Rightarrow> None | Some s \<Rightarrow> if s = [] then None else Some s)"

definition digit_char :: "nat \<Rightarrow> char" where
  "digit_char d = ''0123456789'' ! d"

fun digits_of :: "nat \<Rightarrow> string" where
  "digits_of n = (if n < 10 then [digit_char n] else digits_of (n div 10) @ [digit_char (n mod 10)])"

definition number_to_string :: "number \<Rightarrow> string" where
  "number_to_string n = (if n < 0 then CHR ''-'' # digits_of (nat (- n)) else digits_of (nat n))"

section \<open>The dashboard component\<close>

text \<open>
  The repository holds the dashboard twice. \<^verbatim>\<open>src/components/Dashboard.tsx\<close> has the
  inputs \<^verbatim>\<open>bin\<close> and \<^verbatim>\<open>quantity\<close> and a fixed generator URL; the other file adds
  \<^verbatim>\<open>month\<close>, \<^verbatim>\<open>year\<close> and a configurable \<^verbatim>\<open>apiUrl\<close>. The state of the second is an
  extension of the state of the first, and its functions carry the suffix \<open>_ext\<close>.
  \<^verbatim>\<open>fetchProfile\<close> and \<^verbatim>\<open>fetchRecentCalls\<close> are the same text in both files, and so is
  the \<^verbatim>\<open>try\<close> block of \<^verbatim>\<open>makeApiCall\<close> but for the URL it fetches.
  The signed-in user is given by its identity, its email and the full name of its
  metadata. The \<^verbatim>\<open>errors\<close> object is an association list in insertion order.
\<close>

record user =
  u_id :: uuid
  u_email :: "string option"
  u_full_name :: "string option"

record dashboard =
  profile :: "profile_row option"
  recentCalls :: "api_call_row list"
  bin :: string
  quantity :: number
  isLoading :: bool
  errors :: "(string \<times> string) list"

record dashboard_ext = dashboard +
  month :: number
  year :: number
  apiUrl :: string

subsection \<open>fetchProfile\<close>

definition fetchProfile ::
  "backend \<Rightarrow> user \<Rightarrow> 'a dashboard_scheme \<times> world \<Rightarrow> 'a dashboard_scheme \<times> world" where
  "fetchProfile be usr sw =
     (case sw of (st, w) \<Rightarrow>
       (case select_profile be (u_id usr) w of
          (Inl error, w1) \<Rightarrow> (st, show_toast Toast_load_profile_failed w1)
        | (Inr (Some data), w1) \<Rightarrow> (st\<lparr>profile := Some data\<rparr>, w1)
        | (Inr None, w1) \<Rightarrow>
            (case insert_profile be
                    \<lparr>np_user_id = u_id usr, np_email = u_email usr,
                     np_full_name = or_null (u_full_name usr), np_credits = 0\<rparr> w1 of
               (Inl insertError, w2) \<Rightarrow> (st, show_toast Toast_load_profile_failed w2)
             | (Inr newProfile, w2) \<Rightarrow> (st\<lparr>profile := Some newProfile\<rparr>, w2))))"

subsection \<open>fetchRecentCalls\<close>

definition fetchRecentCalls ::
  "backend \<Rightarrow> user \<Rightarrow> 'a dashboard_scheme \<times> world \<Rightarrow> 'a dashboard_scheme \<times> world" where
  "fetchRecentCalls be usr sw =
     (case sw of (st, w) \<Rightarrow>
       (case select_recent_calls be (u_id usr) w of
          (Inl error, w1) \<Rightarrow> (st, w1)
        | (Inr data, w1) \<Rightarrow>
            (st\<lparr>recentCalls := (case data of None \<Rightarrow> [] | Some rows \<Rightarrow> rows)\<rparr>, w1)))"

subsection \<open>validateInputs\<close>

text \<open>
  A schema's \<^verbatim>\<open>safeParse\<close> is modelled by the message of its first issue, \<open>None\<close> on
  success. The pattern \<^verbatim>\<open>/^\d{6,}$/\<close> is matched as the engine does: from the start, as
  many digits as there are, at least six, and then the end of the input.
\<close>

definition is_digit :: "char \<Rightarrow> bool" where
  "is_digit c = (c \<in> set ''0123456789'')"

definition bin_regex_test :: "string \<Rightarrow> bool" where
  "bin_regex_test s = (6 \<le> length (takeWhile is_digit s) \<and> dropWhile is_digit s = [])"

definition binSchema :: "string \<Rightarrow> string option" where
  "binSchema s = (if bin_regex_test s then None else Some ''BIN must be at least 6 digits'')"

definition quantitySchema :: "number \<Rightarrow> string option" where
  "quantitySchema n =
     (if n < 1 then Some ''Quantity must be at least 1''
      else if 50 < n then Some ''Quantity cannot exceed 50'' else None)"

definition monthSchema :: "number \<Rightarrow> string option" where
  "monthSchema n =
     (if n < 1 then Some ''Month must be between 1-12''
      else if 12 < n then Some ''Month must be between 1-12'' else None)"

definition yearSchema :: "number \<Rightarrow> string option" where
  "yearSchema n =
     (if n < 2025 then Some ''Year must be 2025 or later''
      else if 2035 < n then Some ''Year cannot exceed 2035'' else None)"

definition set_error :: "string \<Rightarrow> string option \<Rightarrow> (string \<times> string) list \<Rightarrow> (string \<times> string) list" where
  "set_error field result newErrors =
     (case result of None \<Rightarrow> newErrors | Some message \<Rightarrow> AList.update field message newErrors)"

definition validateInputs :: "'a dashboard_scheme \<Rightarrow> 'a dashboard_scheme \<times> bool" where
  "validateInputs st =
     (let newErrors = [];
          newErrors = set_error ''bin'' (binSchema (bin st)) newErrors;
          newErrors = set_error ''quantity'' (quantitySchema (quantity st)) newErrors
      in (st\<lparr>errors := newErrors\<rparr>, length (map fst newErrors) = 0))"

definition validateInputs_ext :: "'a dashboard_ext_scheme \<Rightarrow> 'a dashboard_ext_scheme \<times> bool" where
  "validateInputs_ext st =
     (let newErrors = [];
          newErrors = set_error ''bin'' (binSchema (bin st)) newErrors;
          newErrors = set_error ''quantity'' (quantitySchema (quantity st)) newErrors;
          newErrors = set_error ''month'' (monthSchema (month st)) newErrors;
          newErrors = set_error ''year'' (yearSchema (year st)) newErrors
      in (st\<lparr>errors := newErrors\<rparr>, length (map fst newErrors) = 0))"

subsection \<open>makeApiCall\<close>

text \<open>
  The body of the \<^verbatim>\<open>try\<close> block, from the \<^verbatim>\<open>fetch\<close> to the call of
  \<^verbatim>\<open>fetchRecentCalls\<close>. The first component of the result says whether an exception
  reached the \<^verbatim>\<open>catch\<close>: a rejected \<^verbatim>\<open>fetch\<close>, a body that is not JSON, or, after a
  successful call, the read of \<^verbatim>\<open>responseData.live_cards_found\<close> on a \<^verbatim>\<open>null\<close> body.
  The results of the insert and of the update are not looked at. \<^verbatim>\<open>p\<close> is the profile
  the handler closed over.
\<close>

definition try_block ::
  "backend \<Rightarrow> user \<Rightarrow> profile_row \<Rightarrow> string \<Rightarrow> 'a dashboard_scheme \<times> world
     \<Rightarrow> bool \<times> 'a dashboard_scheme \<times> world" where
  "try_block be usr p url sw =
     (case sw of (st, w) \<Rightarrow>
       (let w1 = w\<lparr>http_log := http_log w @ [url]\<rparr> in
        case http be of
          Fetch_rejects \<Rightarrow> (True, st, w1)
        | Json_rejects ok \<Rightarrow> (True, st, w1)
        | Responds ok responseData \<Rightarrow>
            (let w2 = snd (insert_api_call be
                        \<lparr>nc_user_id = u_id usr, nc_bin = bin st, nc_quantity = quantity st,
                         nc_credits_used = 1, nc_success = ok,
                         nc_response_data = (if ok then Some responseData else None),
                         nc_error_message =
                           (if ok then None
                            else Some (or_else (get_prop responseData ''error'')
                                         (JStr ''Unknown error'')))\<rparr> w1)
             in if ok then
                  (let w3 = snd (update_credits be (u_id usr) (p_credits p - 1) w2);
                       st1 = st\<lparr>profile :=
                               (case profile st of
                                  Some prev \<Rightarrow> Some (prev\<lparr>p_credits := p_credits prev - 1\<rparr>)
                                | None \<Rightarrow> None)\<rparr>
                   in if responseData = JNull then (True, st1, w3)
                      else (let w4 = show_toast
                                  (Toast_success (or_else (get_prop responseData ''live_cards_found'')
                                                    (JNum (quantity st)))) w3
                            in (False, fetchRecentCalls be usr (st1, w4))))
                else
                  (let w3 = show_toast
                              (Toast_api_call_failed (or_else (get_prop responseData ''error'')
                                                        (JStr ''Unknown error occurred''))) w2
                   in (False, fetchRecentCalls be usr (st, w3))))))"

definition catch_finally :: "bool \<times> 'a dashboard_scheme \<times> world \<Rightarrow> 'a dashboard_scheme \<times> world" where
  "catch_finally r =
     (case r of (thrown, st, w) \<Rightarrow>
        (st\<lparr>isLoading := False\<rparr>, if thrown then show_toast Toast_request_failed w else w))"

definition request_url :: "'a dashboard_scheme \<Rightarrow> string" where
  "request_url st =
     ''https://cc.yeasirar.xyz/gen?bin='' @ bin st @ ''&qty='' @ number_to_string (quantity st)"

definition request_url_ext :: "'a dashboard_ext_scheme \<Rightarrow> string" where
  "request_url_ext st =
     apiUrl st @ ''?bin='' @ bin st @ ''&qty='' @ number_to_string (quantity st)
       @ ''&mon='' @ number_to_string (month st) @ ''&yr='' @ number_to_string (year st)"

definition makeApiCall ::
  "backend \<Rightarrow> user \<Rightarrow> 'a dashboard_scheme \<times> world \<Rightarrow> 'a dashboard_scheme \<times> world" where
  "makeApiCall be usr sw =
     (case sw of (st0, w) \<Rightarrow>
       (case validateInputs st0 of (st, valid) \<Rightarrow>
          if \<not> valid then (st, w)
          else (case profile st of
                  None \<Rightarrow> (st, show_toast Toast_insufficient_credits w)
                | Some p \<Rightarrow>
                    if p_credits p < 1 then (st, show_toast Toast_insufficient_credits w)
                    else catch_finally
                           (try_block be usr p (request_url st) (st\<lparr>isLoading := True\<rparr>, w)))))"

definition makeApiCall_ext ::
  "backend \<Rightarrow> user \<Rightarrow> 'a dashboard_ext_scheme \<times> world \<Rightarrow> 'a dashboard_ext_scheme \<times> world" where
  "makeApiCall_ext be usr sw =
     (case sw of (st0, w) \<Rightarrow>
       (case validateInputs_ext st0 of (st, valid) \<Rightarrow>
          if \<not> valid then (st, w)
          else (case profile st of
                  None \<Rightarrow> (st, show_toast Toast_insufficient_credits w)
                | Some p \<Rightarrow>
                    if p_credits p < 1 then (st, show_toast Toast_insufficient_credits w)
                    else catch_finally
                           (try_block be usr p (request_url_ext st) (st\<lparr>isLoading := True\<rparr>, w)))))"

section \<open>Example inputs\<close>

text \<open>
  The inputs of the specification's examples: a user with three credits who submits the
  prefix 401658 and the quantity 10, a store that holds that user's profile and no call
  record, and a generator that answers with a success status.
\<close>

definition ex_user :: user where
  "ex_user = \<lparr>u_id = ''user-1'', u_email = Some ''ada@example.com'', u_full_name = Some ''Ada''\<rparr>"

definition ex_profile :: profile_row where
  "ex_profile = \<lparr>p_id = ''profile-1'', p_user_id = ''user-1'', p_email = Some ''ada@example.com'',
                  p_full_name = Some ''Ada'', p_credits = 3, p_is_admin = False, p_created_at = 1\<rparr>"

definition ex_state :: dashboard where
  "ex_state = \<lparr>profile = Some ex_profile, recentCalls = [], bin = ''401658'', quantity = 10,
                isLoading = False, errors = []\<rparr>"

definition ex_state_ext :: dashboard_ext where
  "ex_state_ext = \<lparr>profile = Some ex_profile, recentCalls = [], bin = ''401658'', quantity = 10,
                    isLoading = False, errors = [], month = 12, year = 2028,
                    apiUrl = ''https://cc.yeasirar.xyz/gen''\<rparr>"

definition ex_world :: world where
  "ex_world = \<lparr>http_log = [], store_log = [], profiles = [ex_profile], api_calls = [],
                toasts = []\<rparr>"

definition ex_backend :: backend where
  "ex_backend = \<lparr>http = Responds True (JObj [(''live_cards_found'', JNum 10)]),
                  select_fault = None, insert_fault = None, update_fault = None,
                  gen_random_uuid = ''row-1'', now = 100\<rparr>"

text \<open>
  Call records of two users, for the recent-activity query: six of the example user, one
  of another user, in no order.
\<close>

definition ex_call :: "uuid \<Rightarrow> uuid \<Rightarrow> timestamp \<Rightarrow> api_call_row" where
  "ex_call i u t = \<lparr>c_id = i, c_user_id = u, c_bin = ''401658'', c_quantity = 10,
                    c_credits_used = 1, c_success = True, c_response_data = None,
                    c_error_message = None, c_created_at = t\<rparr>"

definition ex_calls :: "api_call_row list" where
  "ex_calls = [ex_call ''a'' ''user-1'' 10, ex_call ''b'' ''user-2'' 20, ex_call ''c'' ''user-1'' 30,
               ex_call ''d'' ''user-1'' 5, ex_call ''e'' ''user-1'' 40, ex_call ''f'' ''user-1'' 25,
               ex_call ''g'' ''user-1'' 35]"

section \<open>Properties of the admin predicate\<close>

lemma sql_and_True:
  "(sql_and a b = Some True) = (a = Some True \<and> b = Some True)"
  by (induction a b rule: sql_and.induct) auto

lemma sql_where_admin:
  "sql_where (\<lambda>r. sql_and (sql_eq (Some (p_user_id r)) (Some u))
                           (sql_eq (Some (p_is_admin r)) (Some True))) ps
   = filter (\<lambda>r. p_user_id r = u \<and> p_is_admin r) ps"
  unfolding sql_where_def sql_eq_def
  by (simp add: sql_and_True)

lemma sql_where_null:
  "sql_where (\<lambda>r. sql_and (sql_eq (Some (p_user_id r)) None)
                           (sql_eq (Some (p_is_admin r)) (Some True))) ps = []"
  unfolding sql_where_def sql_eq_def
  by (simp add: sql_and_True)

text \<open>
  Claim C8. \<open>is_admin\<close> is true exactly when some profile row has the given user identity
  and the admin flag set; so it is false for an identity with no row, for one whose row
  has the flag false, and for the \<^verbatim>\<open>NULL\<close> identity.
\<close>

theorem is_admin_iff:
  "is_admin ps (Some u) = (\<exists>r. r \<in> set ps \<and> p_user_id r = u \<and> p_is_admin r)
   \<and> is_admin ps None = False"
proof -
  have "is_admin ps (Some u) = (filter (\<lambda>r. p_user_id r = u \<and> p_is_admin r) ps \<noteq> [])"
    unfolding is_admin_def sql_exists_def by (simp add: sql_where_admin)
  also have "\<dots> = (\<exists>r. r \<in> set ps \<and> p_user_id r = u \<and> p_is_admin r)"
    by (auto simp: filter_empty_conv)
  finally have a: "is_admin ps (Some u)
      = (\<exists>r. r \<in> set ps \<and> p_user_id r = u \<and> p_is_admin r)" .
  have b: "is_admin ps None = False"
    unfolding is_admin_def sql_exists_def by (simp add: sql_where_null)
  from a b show ?thesis by simp
qed

section \<open>Properties of the statistics fold\<close>

lemma foldl_stats_step:
  "foldl stats_step acc calls =
     \<lparr>total_calls = total_calls acc + int (length calls),
      successful_calls = successful_calls acc + int (length (filter success calls)),
      failed_calls = failed_calls acc + int (length (filter (\<lambda>c. \<not> success c) calls)),
      total_credits_used = total_credits_used acc + sum_list (map credits_used calls)\<rparr>"
proof (induction calls arbitrary: acc)
  case Nil
  show ?case by simp
next
  case (Cons c cs)
  show ?case
    unfolding foldl_Cons Cons.IH
    by (simp add: stats_step_def Let_def)
qed

text \<open>
  Claim C9. For every list of call records the fold counts the records, the successful
  ones and the failed ones, and sums the credits used; the two partial counts add up to
  the total; the empty list (and a \<^verbatim>\<open>null\<close> result) gives four zeros; and \<^verbatim>\<open>fetchStats\<close>
  displays that record.
\<close>

theorem fetchStats_counts:
  "reduce_stats (Some calls) =
     \<lparr>total_calls = int (length calls),
      successful_calls = int (length (filter success calls)),
      failed_calls = int (length (filter (\<lambda>c. \<not> success c) calls)),
      total_credits_used = sum_list (map credits_used calls)\<rparr>
   \<and> successful_calls (reduce_stats (Some calls)) + failed_calls (reduce_stats (Some calls))
       = total_calls (reduce_stats (Some calls))
   \<and> reduce_stats (Some []) = stats_zero
   \<and> reduce_stats None = stats_zero
   \<and> stats (fetchStats (Inr (Some calls)) st) = Some (reduce_stats (Some calls))"
proof -
  have r: "reduce_stats (Some calls) =
     \<lparr>total_calls = int (length calls),
      successful_calls = int (length (filter success calls)),
      failed_calls = int (length (filter (\<lambda>c. \<not> success c) calls)),
      total_credits_used = sum_list (map credits_used calls)\<rparr>"
    by (simp add: reduce_stats_def foldl_stats_step stats_zero_def)
  have s: "length (filter success calls) + length (filter (\<lambda>c. \<not> success c) calls)
           = length calls"
    by (rule sum_length_filter_compl)
  have t: "successful_calls (reduce_stats (Some calls)) + failed_calls (reduce_stats (Some calls))
       = total_calls (reduce_stats (Some calls))"
    unfolding r using s by simp
  have e: "reduce_stats (Some []) = stats_zero" "reduce_stats None = stats_zero"
    by (simp_all add: reduce_stats_def)
  have f: "stats (fetchStats (Inr (Some calls)) st) = Some (reduce_stats (Some calls))"
    by (simp add: fetchStats_def)
  from r t e f show ?thesis by blast
qed

section \<open>Properties of the input validation\<close>

lemma bin_regex_test_iff:
  "bin_regex_test s = (6 \<le> length s \<and> list_all is_digit s)"
proof (cases "list_all is_digit s")
  case True
  then have all: "\<forall>c\<in>set s. is_digit c"
    by (simp add: list_all_iff)
  have t: "takeWhile is_digit s = s"
    using all by (simp only: takeWhile_eq_all_conv)
  have d: "dropWhile is_digit s = []"
    using all by (simp only: dropWhile_eq_Nil_conv)
  show ?thesis
    unfolding bin_regex_test_def t d using True by simp
next
  case False
  then have "dropWhile is_digit s \<noteq> []"
    by (simp add: list_all_iff)
  then show ?thesis using False by (simp add: bin_regex_test_def)
qed

lemma map_of_set_error:
  "map_of (set_error f r es) k = (if k = f \<and> r \<noteq> None then r else map_of es k)"
  by (auto simp: set_error_def update_conv' split: option.splits)

lemma set_error_eq_Nil:
  "(set_error f r es = []) = (r = None \<and> es = [])"
  by (auto simp: set_error_def split: option.splits)

lemma validateInputs_fst:
  "fst (validateInputs st) =
     st\<lparr>errors := set_error ''quantity'' (quantitySchema (quantity st))
                     (set_error ''bin'' (binSchema (bin st)) [])\<rparr>"
  by (simp add: validateInputs_def Let_def)

lemma validateInputs_snd:
  "snd (validateInputs st) = (binSchema (bin st) = None \<and> quantitySchema (quantity st) = None)"
  by (auto simp: validateInputs_def Let_def set_error_eq_Nil)

lemma validateInputs_ext_fst:
  "fst (validateInputs_ext st) =
     st\<lparr>errors := set_error ''year'' (yearSchema (year st))
                    (set_error ''month'' (monthSchema (month st))
                      (set_error ''quantity'' (quantitySchema (quantity st))
                        (set_error ''bin'' (binSchema (bin st)) [])))\<rparr>"
  by (simp add: validateInputs_ext_def Let_def)

lemma validateInputs_ext_snd:
  "snd (validateInputs_ext st) =
     (binSchema (bin st) = None \<and> quantitySchema (quantity st) = None
      \<and> monthSchema (month st) = None \<and> yearSchema (year st) = None)"
  by (auto simp: validateInputs_ext_def Let_def set_error_eq_Nil)

lemma binSchema_None: "(binSchema s = None) = (6 \<le> length s \<and> list_all is_digit s)"
  by (simp add: binSchema_def bin_regex_test_iff)

lemma quantitySchema_None: "(quantitySchema n = None) = (1 \<le> n \<and> n \<le> 50)"
  by (auto simp: quantitySchema_def)

lemma monthSchema_None: "(monthSchema n = None) = (1 \<le> n \<and> n \<le> 12)"
  by (auto simp: monthSchema_def)

lemma yearSchema_None: "(yearSchema n = None) = (2025 \<le> n \<and> n \<le> 2035)"
  by (auto simp: yearSchema_def)

text \<open>
  Claim C5, as amended. In the file with the month and year inputs, \<open>validateInputs_ext\<close>
  returns true exactly when the BIN is a string of at least six digits, the quantity is
  in [1,50], the month is in [1,12] and the year is in [2025,2035]; it records under each
  field the message of the constraint that field violates and none for a field that is
  in range, and changes nothing else of the state.
\<close>

theorem validateInputs_ext_iff:
  "snd (validateInputs_ext st) =
     (6 \<le> length (bin st) \<and> list_all is_digit (bin st)
      \<and> 1 \<le> quantity st \<and> quantity st \<le> 50
      \<and> 1 \<le> month st \<and> month st \<le> 12
      \<and> 2025 \<le> year st \<and> year st \<le> 2035)
   \<and> map_of (errors (fst (validateInputs_ext st))) ''bin'' =
       (if 6 \<le> length (bin st) \<and> list_all is_digit (bin st) then None
        else Some ''BIN must be at least 6 digits'')
   \<and> map_of (errors (fst (validateInputs_ext st))) ''quantity'' =
       (if quantity st < 1 then Some ''Quantity must be at least 1''
        else if 50 < quantity st then Some ''Quantity cannot exceed 50'' else None)
   \<and> map_of (errors (fst (validateInputs_ext st))) ''month'' =
       (if month st < 1 \<or> 12 < month st then Some ''Month must be between 1-12'' else None)
   \<and> map_of (errors (fst (validateInputs_ext st))) ''year'' =
       (if year st < 2025 then Some ''Year must be 2025 or later''
        else if 2035 < year st then Some ''Year cannot exceed 2035'' else None)
   \<and> fst (validateInputs_ext st) = st\<lparr>errors := errors (fst (validateInputs_ext st))\<rparr>"
proof -
  have v: "snd (validateInputs_ext st) =
     (6 \<le> length (bin st) \<and> list_all is_digit (bin st)
      \<and> 1 \<le> quantity st \<and> quantity st \<le> 50
      \<and> 1 \<le> month st \<and> month st \<le> 12
      \<and> 2025 \<le> year st \<and> year st \<le> 2035)"
    by (simp add: validateInputs_ext_snd binSchema_None quantitySchema_None
          monthSchema_None yearSchema_None)
  have b: "map_of (errors (fst (validateInputs_ext st))) ''bin'' =
       (if 6 \<le> length (bin st) \<and> list_all is_digit (bin st) then None
        else Some ''BIN must be at least 6 digits'')"
    by (simp add: validateInputs_ext_fst map_of_set_error binSchema_def bin_regex_test_iff)
  have q: "map_of (errors (fst (validateInputs_ext st))) ''quantity'' =
       (if quantity st < 1 then Some ''Quantity must be at least 1''
        else if 50 < quantity st then Some ''Quantity cannot exceed 50'' else None)"
    by (simp add: validateInputs_ext_fst map_of_set_error quantitySchema_def)
  have m: "map_of (errors (fst (validateInputs_ext st))) ''month'' =
       (if month st < 1 \<or> 12 < month st then Some ''Month must be between 1-12'' else None)"
    by (simp add: validateInputs_ext_fst map_of_set_error monthSchema_def)
  have y: "map_of (errors (fst (validateInputs_ext st))) ''year'' =
       (if year st < 2025 then Some ''Year must be 2025 or later''
        else if 2035 < year st then Some ''Year cannot exceed 2035'' else None)"
    by (simp add: validateInputs_ext_fst map_of_set_error yearSchema_def)
  have f: "fst (validateInputs_ext st) = st\<lparr>errors := errors (fst (validateInputs_ext st))\<rparr>"
    by (simp add: validateInputs_ext_fst)
  from v b q m y f show ?thesis by blast
qed

text \<open>
  Claim C5 as stated fails there: a six-digit BIN and the quantity 10 are rejected when
  the month is 13.
\<close>

theorem validateInputs_ext_counterexample:
  "6 \<le> length ''401658'' \<and> list_all is_digit ''401658'' \<and> (1::int) \<le> 10 \<and> (10::int) \<le> 50
   \<and> validateInputs_ext
        \<lparr>profile = None, recentCalls = [], bin = ''401658'', quantity = 10, isLoading = False,
         errors = [], month = 13, year = 2028, apiUrl = ''https://cc.yeasirar.xyz/gen''\<rparr>
     = (\<lparr>profile = None, recentCalls = [], bin = ''401658'', quantity = 10, isLoading = False,
         errors = [(''month'', ''Month must be between 1-12'')], month = 13, year = 2028,
         apiUrl = ''https://cc.yeasirar.xyz/gen''\<rparr>, False)"
  by (simp add: validateInputs_ext_def set_error_def binSchema_def bin_regex_test_def is_digit_def
        quantitySchema_def monthSchema_def yearSchema_def)

text \<open>
  The validation of \<^verbatim>\<open>src/components/Dashboard.tsx\<close>, which has no month and year, does
  accept every six-digit BIN with a quantity in [1,50].
\<close>

lemma validateInputs_iff:
  "snd (validateInputs st) =
     (6 \<le> length (bin st) \<and> list_all is_digit (bin st) \<and> 1 \<le> quantity st \<and> quantity st \<le> 50)"
  by (simp add: validateInputs_snd binSchema_None quantitySchema_None)

section \<open>Properties of makeApiCall: the two gates\<close>

lemmas ex_defs = ex_user_def ex_profile_def ex_state_def ex_state_ext_def ex_world_def
  ex_backend_def

lemmas schema_defs = set_error_def binSchema_def bin_regex_test_def is_digit_def
  quantitySchema_def monthSchema_def yearSchema_def

lemma validateInputs_eq:
  "validateInputs st = (st\<lparr>errors := errors (fst (validateInputs st))\<rparr>, snd (validateInputs st))"
  by (simp add: validateInputs_def Let_def)

lemma validateInputs_ext_eq:
  "validateInputs_ext st =
     (st\<lparr>errors := errors (fst (validateInputs_ext st))\<rparr>, snd (validateInputs_ext st))"
  by (simp add: validateInputs_ext_def Let_def)

lemma request_url_errors [simp]: "request_url (st\<lparr>errors := e\<rparr>) = request_url st"
  by (simp add: request_url_def)

lemma request_url_ext_errors [simp]: "request_url_ext (st\<lparr>errors := e\<rparr>) = request_url_ext st"
  by (simp add: request_url_ext_def)

lemma makeApiCall_gate:
  "makeApiCall be usr (st, w) =
     (let st1 = st\<lparr>errors := errors (fst (validateInputs st))\<rparr> in
      if \<not> snd (validateInputs st) then (st1, w)
      else (case profile st of
              None \<Rightarrow> (st1, show_toast Toast_insufficient_credits w)
            | Some p \<Rightarrow>
                if p_credits p < 1 then (st1, show_toast Toast_insufficient_credits w)
                else catch_finally
                       (try_block be usr p (request_url st) (st1\<lparr>isLoading := True\<rparr>, w))))"
  unfolding makeApiCall_def
  by (subst validateInputs_eq) (auto simp: Let_def split: option.split)

lemma makeApiCall_ext_gate:
  "makeApiCall_ext be usr (st, w) =
     (let st1 = st\<lparr>errors := errors (fst (validateInputs_ext st))\<rparr> in
      if \<not> snd (validateInputs_ext st) then (st1, w)
      else (case profile st of
              None \<Rightarrow> (st1, show_toast Toast_insufficient_credits w)
            | Some p \<Rightarrow>
                if p_credits p < 1 then (st1, show_toast Toast_insufficient_credits w)
                else catch_finally
                       (try_block be usr p (request_url_ext st) (st1\<lparr>isLoading := True\<rparr>, w))))"
  unfolding makeApiCall_ext_def
  by (subst validateInputs_ext_eq) (auto simp: Let_def split: option.split)

lemma bin_12345_rejected: "binSchema ''12345'' \<noteq> None"
  by (simp add: binSchema_def bin_regex_test_def is_digit_def)

text \<open>
  Claim C6. When the inputs fail validation, both versions of \<open>makeApiCall\<close> return
  right after recording the field errors: the state changes in \<^verbatim>\<open>errors\<close> only and the
  world is the same, so no HTTP request is sent, no store request is issued, no call
  record is inserted, no balance is updated and no notification is shown. The five-digit
  prefix 12345 fails validation whatever the other inputs are.
\<close>

theorem makeApiCall_invalid_inputs:
  "(\<not> snd (validateInputs st) \<longrightarrow>
      makeApiCall be usr (st, w) = (st\<lparr>errors := errors (fst (validateInputs st))\<rparr>, w))
   \<and> (\<not> snd (validateInputs_ext st') \<longrightarrow>
      makeApiCall_ext be usr (st', w) = (st'\<lparr>errors := errors (fst (validateInputs_ext st'))\<rparr>, w))
   \<and> \<not> snd (validateInputs (st\<lparr>bin := ''12345''\<rparr>))
   \<and> \<not> snd (validateInputs_ext (st'\<lparr>bin := ''12345''\<rparr>))"
proof -
  have a: "\<not> snd (validateInputs st) \<longrightarrow>
      makeApiCall be usr (st, w) = (st\<lparr>errors := errors (fst (validateInputs st))\<rparr>, w)"
    by (simp add: makeApiCall_gate)
  have b: "\<not> snd (validateInputs_ext st') \<longrightarrow>
      makeApiCall_ext be usr (st', w) = (st'\<lparr>errors := errors (fst (validateInputs_ext st'))\<rparr>, w)"
    by (simp add: makeApiCall_ext_gate)
  have c: "\<not> snd (validateInputs (st\<lparr>bin := ''12345''\<rparr>))"
    using bin_12345_rejected by (simp add: validateInputs_snd)
  have d: "\<not> snd (validateInputs_ext (st'\<lparr>bin := ''12345''\<rparr>))"
    using bin_12345_rejected by (simp add: validateInputs_ext_snd)
  from a b c d show ?thesis by blast
qed

text \<open>
  The example of claim C6: the prefix 12345 with the other example inputs.
\<close>

theorem makeApiCall_invalid_inputs_witness:
  "\<not> snd (validateInputs (ex_state\<lparr>bin := ''12345''\<rparr>))
   \<and> makeApiCall ex_backend ex_user (ex_state\<lparr>bin := ''12345''\<rparr>, ex_world)
       = (ex_state\<lparr>bin := ''12345'', errors := [(''bin'', ''BIN must be at least 6 digits'')]\<rparr>,
          ex_world)
   \<and> \<not> snd (validateInputs_ext (ex_state_ext\<lparr>bin := ''12345''\<rparr>))
   \<and> makeApiCall_ext ex_backend ex_user (ex_state_ext\<lparr>bin := ''12345''\<rparr>, ex_world)
       = (ex_state_ext\<lparr>bin := ''12345'', errors := [(''bin'', ''BIN must be at least 6 digits'')]\<rparr>,
          ex_world)"
proof -
  have e: "errors (fst (validateInputs (ex_state\<lparr>bin := ''12345''\<rparr>)))
             = [(''bin'', ''BIN must be at least 6 digits'')]"
    by (simp add: validateInputs_fst ex_defs schema_defs)
  have e': "errors (fst (validateInputs_ext (ex_state_ext\<lparr>bin := ''12345''\<rparr>)))
             = [(''bin'', ''BIN must be at least 6 digits'')]"
    by (simp add: validateInputs_ext_fst ex_defs schema_defs)
  show ?thesis
    using makeApiCall_invalid_inputs
            [of "ex_state\<lparr>bin := ''12345''\<rparr>" ex_backend ex_user ex_world
                "ex_state_ext\<lparr>bin := ''12345''\<rparr>"]
    by (simp add: e e')
qed

text \<open>
  Claim C1, as amended. For a profile with less than one credit, both versions of
  \<open>makeApiCall\<close> send no HTTP request, issue no store request, leave both tables as they
  are and leave the profile in memory as it is, whatever the inputs are; so a balance of
  0 is never decremented. The state changes in \<^verbatim>\<open>errors\<close> only. The insufficient-credit
  notification is shown when the inputs pass validation; when they do not, the field
  errors are recorded and nothing is shown.
\<close>

theorem makeApiCall_insufficient_credits:
  "(profile st = Some p \<and> p_credits p < 1 \<longrightarrow>
      makeApiCall be usr (st, w) =
        (st\<lparr>errors := errors (fst (validateInputs st))\<rparr>,
         if snd (validateInputs st) then show_toast Toast_insufficient_credits w else w)
      \<and> http_log (snd (makeApiCall be usr (st, w))) = http_log w
      \<and> store_log (snd (makeApiCall be usr (st, w))) = store_log w
      \<and> api_calls (snd (makeApiCall be usr (st, w))) = api_calls w
      \<and> profiles (snd (makeApiCall be usr (st, w))) = profiles w
      \<and> profile (fst (makeApiCall be usr (st, w))) = Some p
      \<and> (snd (validateInputs st) \<longrightarrow>
            toasts (snd (makeApiCall be usr (st, w))) = toasts w @ [Toast_insufficient_credits]))
   \<and> (profile st' = Some p \<and> p_credits p < 1 \<longrightarrow>
      makeApiCall_ext be usr (st', w) =
        (st'\<lparr>errors := errors (fst (validateInputs_ext st'))\<rparr>,
         if snd (validateInputs_ext st') then show_toast Toast_insufficient_credits w else w)
      \<and> http_log (snd (makeApiCall_ext be usr (st', w))) = http_log w
      \<and> store_log (snd (makeApiCall_ext be usr (st', w))) = store_log w
      \<and> api_calls (snd (makeApiCall_ext be usr (st', w))) = api_calls w
      \<and> profiles (snd (makeApiCall_ext be usr (st', w))) = profiles w
      \<and> profile (fst (makeApiCall_ext be usr (st', w))) = Some p
      \<and> (snd (validateInputs_ext st') \<longrightarrow>
            toasts (snd (makeApiCall_ext be usr (st', w))) = toasts w @ [Toast_insufficient_credits]))"
proof -
  have a: "makeApiCall be usr (st, w) =
        (st\<lparr>errors := errors (fst (validateInputs st))\<rparr>,
         if snd (validateInputs st) then show_toast Toast_insufficient_credits w else w)"
    if "profile st = Some p" "p_credits p < 1"
    using that by (simp add: makeApiCall_gate)
  have b: "makeApiCall_ext be usr (st', w) =
        (st'\<lparr>errors := errors (fst (validateInputs_ext st'))\<rparr>,
         if snd (validateInputs_ext st') then show_toast Toast_insufficient_credits w else w)"
    if "profile st' = Some p" "p_credits p < 1"
    using that by (simp add: makeApiCall_ext_gate)
  show ?thesis
  proof (intro conjI impI; elim conjE)
    assume h: "profile st = Some p" "p_credits p < 1"
    note r = a[OF h]
    show "makeApiCall be usr (st, w) =
        (st\<lparr>errors := errors (fst (validateInputs st))\<rparr>,
         if snd (validateInputs st) then show_toast Toast_insufficient_credits w else w)"
      by (rule r)
    show "http_log (snd (makeApiCall be usr (st, w))) = http_log w"
      by (simp add: r show_toast_def)
    show "store_log (snd (makeApiCall be usr (st, w))) = store_log w"
      by (simp add: r show_toast_def)
    show "api_calls (snd (makeApiCall be usr (st, w))) = api_calls w"
      by (simp add: r show_toast_def)
    show "profiles (snd (makeApiCall be usr (st, w))) = profiles w"
      by (simp add: r show_toast_def)
    show "profile (fst (makeApiCall be usr (st, w))) = Some p"
      by (simp add: r h)
    show "toasts (snd (makeApiCall be usr (st, w))) = toasts w @ [Toast_insufficient_credits]"
      if "snd (validateInputs st)"
      using that by (simp add: r show_toast_def)
  next
    assume h: "profile st' = Some p" "p_credits p < 1"
    note r = b[OF h]
    show "makeApiCall_ext be usr (st', w) =
        (st'\<lparr>errors := errors (fst (validateInputs_ext st'))\<rparr>,
         if snd (validateInputs_ext st') then show_toast Toast_insufficient_credits w else w)"
      by (rule r)
    show "http_log (snd (makeApiCall_ext be usr (st', w))) = http_log w"
      by (simp add: r show_toast_def)
    show "store_log (snd (makeApiCall_ext be usr (st', w))) = store_log w"
      by (simp add: r show_toast_def)
    show "api_calls (snd (makeApiCall_ext be usr (st', w))) = api_calls w"
      by (simp add: r show_toast_def)
    show "profiles (snd (makeApiCall_ext be usr (st', w))) = profiles w"
      by (simp add: r show_toast_def)
    show "profile (fst (makeApiCall_ext be usr (st', w))) = Some p"
      by (simp add: r h)
    show "toasts (snd (makeApiCall_ext be usr (st', w))) = toasts w @ [Toast_insufficient_credits]"
      if "snd (validateInputs_ext st')"
      using that by (simp add: r show_toast_def)
  qed
qed

section \<open>Properties of makeApiCall: the call and the ledger\<close>

lemma fetchRecentCalls_snd:
  "snd (fetchRecentCalls be usr (st, w)) = issue (Select_recent_calls (u_id usr)) w"
  by (simp add: fetchRecentCalls_def select_recent_calls_def Let_def split: option.splits)

lemma fetchRecentCalls_profile:
  "profile (fst (fetchRecentCalls be usr (st, w))) = profile st"
  by (simp add: fetchRecentCalls_def select_recent_calls_def Let_def split: option.splits)

lemma insert_api_call_snd:
  "snd (insert_api_call be nc w) =
     (if insert_fault be = None
      then w\<lparr>store_log := store_log w @ [Insert_api_call nc],
             api_calls := api_calls w @
               [\<lparr>c_id = gen_random_uuid be, c_user_id = nc_user_id nc, c_bin = nc_bin nc,
                 c_quantity = nc_quantity nc, c_credits_used = nc_credits_used nc,
                 c_success = nc_success nc, c_response_data = nc_response_data nc,
                 c_error_message = nc_error_message nc, c_created_at = now be\<rparr>]\<rparr>
      else w\<lparr>store_log := store_log w @ [Insert_api_call nc]\<rparr>)"
  by (simp add: insert_api_call_def issue_def Let_def split: option.splits)

lemma update_credits_snd:
  "snd (update_credits be uid n w) =
     (if update_fault be = None
      then w\<lparr>store_log := store_log w @ [Update_credits uid n],
             profiles := map (\<lambda>r. if p_user_id r = uid then r\<lparr>p_credits := n\<rparr> else r) (profiles w)\<rparr>
      else w\<lparr>store_log := store_log w @ [Update_credits uid n]\<rparr>)"
  by (simp add: update_credits_def issue_def Let_def split: option.splits)

lemma catch_finally_eq:
  "catch_finally r =
     ((fst (snd r))\<lparr>isLoading := False\<rparr>,
      if fst r then show_toast Toast_request_failed (snd (snd r)) else snd (snd r))"
  by (cases r) (simp add: catch_finally_def)

lemma try_block_rejects:
  "http be = Fetch_rejects \<or> http be = Json_rejects ok \<Longrightarrow>
   catch_finally (try_block be usr p url (st, w)) =
     (st\<lparr>isLoading := False\<rparr>,
      show_toast Toast_request_failed (w\<lparr>http_log := http_log w @ [url]\<rparr>))"
  by (auto simp: try_block_def catch_finally_def Let_def)

lemma try_block_failure:
  "http be = Responds False d \<Longrightarrow>
   try_block be usr p url (st, w) =
     (False, fetchRecentCalls be usr
        (st, show_toast (Toast_api_call_failed (or_else (get_prop d ''error'')
                                                  (JStr ''Unknown error occurred'')))
               (snd (insert_api_call be
                  \<lparr>nc_user_id = u_id usr, nc_bin = bin st, nc_quantity = quantity st,
                   nc_credits_used = 1, nc_success = False, nc_response_data = None,
                   nc_error_message = Some (or_else (get_prop d ''error'') (JStr ''Unknown error''))\<rparr>
                  (w\<lparr>http_log := http_log w @ [url]\<rparr>)))))"
  by (simp add: try_block_def Let_def)

lemma try_block_success:
  "http be = Responds True d \<Longrightarrow> profile st = Some p' \<Longrightarrow>
   try_block be usr p url (st, w) =
     (let w3 = snd (update_credits be (u_id usr) (p_credits p - 1)
                (snd (insert_api_call be
                  \<lparr>nc_user_id = u_id usr, nc_bin = bin st, nc_quantity = quantity st,
                   nc_credits_used = 1, nc_success = True, nc_response_data = Some d,
                   nc_error_message = None\<rparr>
                  (w\<lparr>http_log := http_log w @ [url]\<rparr>))));
          st1 = st\<lparr>profile := Some (p'\<lparr>p_credits := p_credits p' - 1\<rparr>)\<rparr>
      in if d = JNull then (True, st1, w3)
         else (False, fetchRecentCalls be usr
                 (st1, show_toast (Toast_success (or_else (get_prop d ''live_cards_found'')
                                                    (JNum (quantity st)))) w3)))"
  by (simp add: try_block_def Let_def)

lemma charged_call:
  assumes h: "http be = Responds True d" and p: "profile st = Some p"
  shows "http_log (snd (catch_finally (try_block be usr p url (st, w)))) = http_log w @ [url]"
    and "store_log (snd (catch_finally (try_block be usr p url (st, w)))) =
           store_log w @
             [Insert_api_call \<lparr>nc_user_id = u_id usr, nc_bin = bin st, nc_quantity = quantity st,
                               nc_credits_used = 1, nc_success = True, nc_response_data = Some d,
                               nc_error_message = None\<rparr>,
              Update_credits (u_id usr) (p_credits p - 1)]
             @ (if d = JNull then [] else [Select_recent_calls (u_id usr)])"
    and "profile (fst (catch_finally (try_block be usr p url (st, w)))) =
           Some (p\<lparr>p_credits := p_credits p - 1\<rparr>)"
    and "api_calls (snd (catch_finally (try_block be usr p url (st, w)))) =
           (if insert_fault be = None
            then api_calls w @
              [\<lparr>c_id = gen_random_uuid be, c_user_id = u_id usr, c_bin = bin st,
                c_quantity = quantity st, c_credits_used = 1, c_success = True,
                c_response_data = Some d, c_error_message = None, c_created_at = now be\<rparr>]
            else api_calls w)"
    and "profiles (snd (catch_finally (try_block be usr p url (st, w)))) =
           (if update_fault be = None
            then map (\<lambda>r. if p_user_id r = u_id usr then r\<lparr>p_credits := p_credits p - 1\<rparr> else r)
                   (profiles w)
            else profiles w)"
  unfolding try_block_success[OF h p]
  by (simp_all add: Let_def catch_finally_eq fetchRecentCalls_snd fetchRecentCalls_profile
        insert_api_call_snd update_credits_snd show_toast_def issue_def)

lemma uncharged_call:
  assumes h: "http be = Responds False d"
  shows "http_log (snd (catch_finally (try_block be usr p url (st, w)))) = http_log w @ [url]"
    and "store_log (snd (catch_finally (try_block be usr p url (st, w)))) =
           store_log w @
             [Insert_api_call \<lparr>nc_user_id = u_id usr, nc_bin = bin st, nc_quantity = quantity st,
                               nc_credits_used = 1, nc_success = False, nc_response_data = None,
                               nc_error_message =
                                 Some (or_else (get_prop d ''error'') (JStr ''Unknown error''))\<rparr>,
              Select_recent_calls (u_id usr)]"
    and "profile (fst (catch_finally (try_block be usr p url (st, w)))) = profile st"
    and "api_calls (snd (catch_finally (try_block be usr p url (st, w)))) =
           (if insert_fault be = None
            then api_calls w @
              [\<lparr>c_id = gen_random_uuid be, c_user_id = u_id usr, c_bin = bin st,
                c_quantity = quantity st, c_credits_used = 1, c_success = False,
                c_response_data = None,
                c_error_message = Some (or_else (get_prop d ''error'') (JStr ''Unknown error'')),
                c_created_at = now be\<rparr>]
            else api_calls w)"
    and "profiles (snd (catch_finally (try_block be usr p url (st, w)))) = profiles w"
  unfolding try_block_failure[OF h]
  by (simp_all add: Let_def catch_finally_eq fetchRecentCalls_snd fetchRecentCalls_profile
        insert_api_call_snd show_toast_def issue_def)

text \<open>The value of \<^verbatim>\<open>x || d\<close> is truthy when the default is, so the recorded error message
  is never the empty string either.\<close>

lemma or_else_truthy: "truthy d \<Longrightarrow> truthy (or_else v d)"
  by (simp add: or_else_def split: option.splits)

lemma or_else_not_null: "truthy d \<Longrightarrow> or_else v d \<noteq> JNull"
  using or_else_truthy[of d v] by (cases "or_else v d") auto

lemma makeApiCall_passes:
  "snd (validateInputs st) \<Longrightarrow> profile st = Some p \<Longrightarrow> 1 \<le> p_credits p \<Longrightarrow>
   makeApiCall be usr (st, w) =
     catch_finally (try_block be usr p (request_url st)
       (st\<lparr>errors := errors (fst (validateInputs st)), isLoading := True\<rparr>, w))"
  by (simp add: makeApiCall_gate)

lemma makeApiCall_ext_passes:
  "snd (validateInputs_ext st) \<Longrightarrow> profile st = Some p \<Longrightarrow> 1 \<le> p_credits p \<Longrightarrow>
   makeApiCall_ext be usr (st, w) =
     catch_finally (try_block be usr p (request_url_ext st)
       (st\<lparr>errors := errors (fst (validateInputs_ext st)), isLoading := True\<rparr>, w))"
  by (simp add: makeApiCall_ext_gate)

text \<open>
  Claim C2, as amended. When the inputs are valid, the profile has at least one credit
  and the HTTP call answers with a success status and a body that parses as JSON, \<open>d\<close>,
  both versions of
  \<open>makeApiCall\<close> send one HTTP request; issue one insert of a call record with
  \<^verbatim>\<open>success = true\<close>, \<^verbatim>\<open>credits_used = 1\<close> and the submitted bin and quantity, then one
  update of the credits to the balance minus one (and then refresh the recent calls,
  unless the body is \<^verbatim>\<open>null\<close>); and decrement the balance of the profile in memory by
  one. In the store the call table grows by exactly that record, and the credits of the
  user's profile row become the balance minus one, when the store accepts the request;
  the handler does not look at the store's answers.
\<close>

theorem makeApiCall_success:
  "(snd (validateInputs st) \<and> profile st = Some p \<and> 1 \<le> p_credits p \<and> http be = Responds True d \<longrightarrow>
      http_log (snd (makeApiCall be usr (st, w))) = http_log w @ [request_url st]
      \<and> store_log (snd (makeApiCall be usr (st, w))) =
           store_log w @
             [Insert_api_call \<lparr>nc_user_id = u_id usr, nc_bin = bin st, nc_quantity = quantity st,
                               nc_credits_used = 1, nc_success = True, nc_response_data = Some d,
                               nc_error_message = None\<rparr>,
              Update_credits (u_id usr) (p_credits p - 1)]
             @ (if d = JNull then [] else [Select_recent_calls (u_id usr)])
      \<and> profile (fst (makeApiCall be usr (st, w))) = Some (p\<lparr>p_credits := p_credits p - 1\<rparr>)
      \<and> api_calls (snd (makeApiCall be usr (st, w))) =
           (if insert_fault be = None
            then api_calls w @
              [\<lparr>c_id = gen_random_uuid be, c_user_id = u_id usr, c_bin = bin st,
                c_quantity = quantity st, c_credits_used = 1, c_success = True,
                c_response_data = Some d, c_error_message = None, c_created_at = now be\<rparr>]
            else api_calls w)
      \<and> profiles (snd (makeApiCall be usr (st, w))) =
           (if update_fault be = None
            then map (\<lambda>r. if p_user_id r = u_id usr then r\<lparr>p_credits := p_credits p - 1\<rparr> else r)
                   (profiles w)
            else profiles w))
   \<and> (snd (validateInputs_ext st') \<and> profile st' = Some p \<and> 1 \<le> p_credits p \<and> http be = Responds True d \<longrightarrow>
      http_log (snd (makeApiCall_ext be usr (st', w))) = http_log w @ [request_url_ext st']
      \<and> store_log (snd (makeApiCall_ext be usr (st', w))) =
           store_log w @
             [Insert_api_call \<lparr>nc_user_id = u_id usr, nc_bin = bin st', nc_quantity = quantity st',
                               nc_credits_used = 1, nc_success = True, nc_response_data = Some d,
                               nc_error_message = None\<rparr>,
              Update_credits (u_id usr) (p_credits p - 1)]
             @ (if d = JNull then [] else [Select_recent_calls (u_id usr)])
      \<and> profile (fst (makeApiCall_ext be usr (st', w))) = Some (p\<lparr>p_credits := p_credits p - 1\<rparr>)
      \<and> api_calls (snd (makeApiCall_ext be usr (st', w))) =
           (if insert_fault be = None
            then api_calls w @
              [\<lparr>c_id = gen_random_uuid be, c_user_id = u_id usr, c_bin = bin st',
                c_quantity = quantity st', c_credits_used = 1, c_success = True,
                c_response_data = Some d, c_error_message = None, c_created_at = now be\<rparr>]
            else api_calls w)
      \<and> profiles (snd (makeApiCall_ext be usr (st', w))) =
           (if update_fault be = None
            then map (\<lambda>r. if p_user_id r = u_id usr then r\<lparr>p_credits := p_credits p - 1\<rparr> else r)
                   (profiles w)
            else profiles w))"
  (is "(?H1 \<longrightarrow> ?C1) \<and> (?H2 \<longrightarrow> ?C2)")
proof (rule conjI; rule impI)
  assume "?H1"
  then have v: "snd (validateInputs st)" and p: "profile st = Some p" and c: "1 \<le> p_credits p"
    and h: "http be = Responds True d"
    by simp_all
  have q: "profile (st\<lparr>errors := errors (fst (validateInputs st)), isLoading := True\<rparr>) = Some p"
    using p by simp
  note r = makeApiCall_passes[OF v p c]
  note k = charged_call[OF h q]
  show "?C1"
    unfolding r k by simp
next
  assume "?H2"
  then have v: "snd (validateInputs_ext st')" and p: "profile st' = Some p" and c: "1 \<le> p_credits p"
    and h: "http be = Responds True d"
    by simp_all
  have q: "profile (st'\<lparr>errors := errors (fst (validateInputs_ext st')), isLoading := True\<rparr>) = Some p"
    using p by simp
  note r = makeApiCall_ext_passes[OF v p c]
  note k = charged_call[OF h q]
  show "?C2"
    unfolding r k by simp
qed

text \<open>
  Claim C3, as amended. When the inputs are valid, the profile has at least one credit
  and the HTTP call answers with a non-success status and a body that parses as JSON,
  \<open>d\<close>, both versions of \<open>makeApiCall\<close> issue no update of the credits, leave the
  profile table and the profile in memory as they are, and issue one insert of a call
  record with \<^verbatim>\<open>success = false\<close> and an error message: the \<^verbatim>\<open>error\<close> field of the body
  if it is truthy, "Unknown error" otherwise. That message is truthy, so it is neither
  \<^verbatim>\<open>null\<close> nor the empty string.
\<close>

theorem makeApiCall_failure:
  "(snd (validateInputs st) \<and> profile st = Some p \<and> 1 \<le> p_credits p \<and> http be = Responds False d \<longrightarrow>
      http_log (snd (makeApiCall be usr (st, w))) = http_log w @ [request_url st]
      \<and> store_log (snd (makeApiCall be usr (st, w))) =
           store_log w @
             [Insert_api_call \<lparr>nc_user_id = u_id usr, nc_bin = bin st, nc_quantity = quantity st,
                               nc_credits_used = 1, nc_success = False, nc_response_data = None,
                               nc_error_message =
                                 Some (or_else (get_prop d ''error'') (JStr ''Unknown error''))\<rparr>,
              Select_recent_calls (u_id usr)]
      \<and> profile (fst (makeApiCall be usr (st, w))) = Some p
      \<and> api_calls (snd (makeApiCall be usr (st, w))) =
           (if insert_fault be = None
            then api_calls w @
              [\<lparr>c_id = gen_random_uuid be, c_user_id = u_id usr, c_bin = bin st,
                c_quantity = quantity st, c_credits_used = 1, c_success = False,
                c_response_data = None,
                c_error_message = Some (or_else (get_prop d ''error'') (JStr ''Unknown error'')),
                c_created_at = now be\<rparr>]
            else api_calls w)
      \<and> profiles (snd (makeApiCall be usr (st, w))) = profiles w
      \<and> or_else (get_prop d ''error'') (JStr ''Unknown error'') \<noteq> JNull
      \<and> truthy (or_else (get_prop d ''error'') (JStr ''Unknown error'')))
   \<and> (snd (validateInputs_ext st') \<and> profile st' = Some p \<and> 1 \<le> p_credits p \<and> http be = Responds False d \<longrightarrow>
      http_log (snd (makeApiCall_ext be usr (st', w))) = http_log w @ [request_url_ext st']
      \<and> store_log (snd (makeApiCall_ext be usr (st', w))) =
           store_log w @
             [Insert_api_call \<lparr>nc_user_id = u_id usr, nc_bin = bin st', nc_quantity = quantity st',
                               nc_credits_used = 1, nc_success = False, nc_response_data = None,
                               nc_error_message =
                                 Some (or_else (get_prop d ''error'') (JStr ''Unknown error''))\<rparr>,
              Select_recent_calls (u_id usr)]
      \<and> profile (fst (makeApiCall_ext be usr (st', w))) = Some p
      \<and> api_calls (snd (makeApiCall_ext be usr (st', w))) =
           (if insert_fault be = None
            then api_calls w @
              [\<lparr>c_id = gen_random_uuid be, c_user_id = u_id usr, c_bin = bin st',
                c_quantity = quantity st', c_credits_used = 1, c_success = False,
                c_response_data = None,
                c_error_message = Some (or_else (get_prop d ''error'') (JStr ''Unknown error'')),
                c_created_at = now be\<rparr>]
            else api_calls w)
      \<and> profiles (snd (makeApiCall_ext be usr (st', w))) = profiles w
      \<and> or_else (get_prop d ''error'') (JStr ''Unknown error'') \<noteq> JNull
      \<and> truthy (or_else (get_prop d ''error'') (JStr ''Unknown error'')))"
  (is "(?H1 \<longrightarrow> ?C1) \<and> (?H2 \<longrightarrow> ?C2)")
proof (rule conjI; rule impI)
  assume "?H1"
  then have v: "snd (validateInputs st)" and p: "profile st = Some p" and c: "1 \<le> p_credits p"
    and h: "http be = Responds False d"
    by simp_all
  have q: "profile (st\<lparr>errors := errors (fst (validateInputs st)), isLoading := True\<rparr>) = Some p"
    using p by simp
  note r = makeApiCall_passes[OF v p c]
  note k = uncharged_call[OF h] q
  show "?C1"
    unfolding r k by (simp add: or_else_truthy or_else_not_null)
next
  assume "?H2"
  then have v: "snd (validateInputs_ext st')" and p: "profile st' = Some p" and c: "1 \<le> p_credits p"
    and h: "http be = Responds False d"
    by simp_all
  have q: "profile (st'\<lparr>errors := errors (fst (validateInputs_ext st')), isLoading := True\<rparr>) = Some p"
    using p by simp
  note r = makeApiCall_ext_passes[OF v p c]
  note k = uncharged_call[OF h] q
  show "?C2"
    unfolding r k by (simp add: or_else_truthy or_else_not_null)
qed

text \<open>
  Claim C4, as amended. When the inputs are valid and the profile has at least one
  credit, both versions of \<open>makeApiCall\<close> insert exactly one call record recording the
  outcome whenever the HTTP call answers with a JSON body, whatever its status. When
  \<^verbatim>\<open>fetch\<close> rejects (a transport failure) or the body is not JSON, the \<^verbatim>\<open>catch\<close> only
  shows the notification "Request failed": the HTTP request is the only thing that left
  the client, no call record is inserted and nothing else changes.
\<close>

theorem makeApiCall_records_response:
  "(snd (validateInputs st) \<and> profile st = Some p \<and> 1 \<le> p_credits p \<and> http be = Responds ok d \<longrightarrow>
      store_log (snd (makeApiCall be usr (st, w))) =
        store_log w @
          [Insert_api_call \<lparr>nc_user_id = u_id usr, nc_bin = bin st, nc_quantity = quantity st,
                            nc_credits_used = 1, nc_success = ok,
                            nc_response_data = (if ok then Some d else None),
                            nc_error_message =
                              (if ok then None
                               else Some (or_else (get_prop d ''error'') (JStr ''Unknown error'')))\<rparr>]
          @ (if ok then [Update_credits (u_id usr) (p_credits p - 1)] else [])
          @ (if ok \<and> d = JNull then [] else [Select_recent_calls (u_id usr)])
      \<and> api_calls (snd (makeApiCall be usr (st, w))) =
           (if insert_fault be = None
            then api_calls w @
              [\<lparr>c_id = gen_random_uuid be, c_user_id = u_id usr, c_bin = bin st,
                c_quantity = quantity st, c_credits_used = 1, c_success = ok,
                c_response_data = (if ok then Some d else None),
                c_error_message =
                  (if ok then None
                   else Some (or_else (get_prop d ''error'') (JStr ''Unknown error''))),
                c_created_at = now be\<rparr>]
            else api_calls w))
   \<and> (snd (validateInputs st) \<and> profile st = Some p \<and> 1 \<le> p_credits p
        \<and> (http be = Fetch_rejects \<or> http be = Json_rejects ok) \<longrightarrow>
      makeApiCall be usr (st, w) =
        (st\<lparr>errors := errors (fst (validateInputs st)), isLoading := False\<rparr>,
         w\<lparr>http_log := http_log w @ [request_url st],
           toasts := toasts w @ [Toast_request_failed]\<rparr>))
   \<and> (snd (validateInputs_ext st') \<and> profile st' = Some p \<and> 1 \<le> p_credits p \<and> http be = Responds ok d \<longrightarrow>
      store_log (snd (makeApiCall_ext be usr (st', w))) =
        store_log w @
          [Insert_api_call \<lparr>nc_user_id = u_id usr, nc_bin = bin st', nc_quantity = quantity st',
                            nc_credits_used = 1, nc_success = ok,
                            nc_response_data = (if ok then Some d else None),
                            nc_error_message =
                              (if ok then None
                               else Some (or_else (get_prop d ''error'') (JStr ''Unknown error'')))\<rparr>]
          @ (if ok then [Update_credits (u_id usr) (p_credits p - 1)] else [])
          @ (if ok \<and> d = JNull then [] else [Select_recent_calls (u_id usr)])
      \<and> api_calls (snd (makeApiCall_ext be usr (st', w))) =
           (if insert_fault be = None
            then api_calls w @
              [\<lparr>c_id = gen_random_uuid be, c_user_id = u_id usr, c_bin = bin st',
                c_quantity = quantity st', c_credits_used = 1, c_success = ok,
                c_response_data = (if ok then Some d else None),
                c_error_message =
                  (if ok then None
                   else Some (or_else (get_prop d ''error'') (JStr ''Unknown error''))),
                c_created_at = now be\<rparr>]
            else api_calls w))
   \<and> (snd (validateInputs_ext st') \<and> profile st' = Some p \<and> 1 \<le> p_credits p
        \<and> (http be = Fetch_rejects \<or> http be = Json_rejects ok) \<longrightarrow>
      makeApiCall_ext be usr (st', w) =
        (st'\<lparr>errors := errors (fst (validateInputs_ext st')), isLoading := False\<rparr>,
         w\<lparr>http_log := http_log w @ [request_url_ext st'],
           toasts := toasts w @ [Toast_request_failed]\<rparr>))"
proof -
  have a: "(snd (validateInputs st) \<and> profile st = Some p \<and> 1 \<le> p_credits p \<and> http be = Responds ok d \<longrightarrow>
          store_log (snd (makeApiCall be usr (st, w))) =
            store_log w @
              [Insert_api_call \<lparr>nc_user_id = u_id usr, nc_bin = bin st, nc_quantity = quantity st,
                                nc_credits_used = 1, nc_success = ok,
                                nc_response_data = (if ok then Some d else None),
                                nc_error_message =
                                  (if ok then None
                                   else Some (or_else (get_prop d ''error'') (JStr ''Unknown error'')))\<rparr>]
              @ (if ok then [Update_credits (u_id usr) (p_credits p - 1)] else [])
              @ (if ok \<and> d = JNull then [] else [Select_recent_calls (u_id usr)])
          \<and> api_calls (snd (makeApiCall be usr (st, w))) =
               (if insert_fault be = None
                then api_calls w @
                  [\<lparr>c_id = gen_random_uuid be, c_user_id = u_id usr, c_bin = bin st,
                    c_quantity = quantity st, c_credits_used = 1, c_success = ok,
                    c_response_data = (if ok then Some d else None),
                    c_error_message =
                      (if ok then None
                       else Some (or_else (get_prop d ''error'') (JStr ''Unknown error''))),
                    c_created_at = now be\<rparr>]
                else api_calls w))"
    (is "?H \<longrightarrow> ?C")
  proof (rule impI)
    assume "?H"
    then have v: "snd (validateInputs st)" and p: "profile st = Some p" and c: "1 \<le> p_credits p"
      and h: "http be = Responds ok d"
      by simp_all
    have q: "profile (st\<lparr>errors := errors (fst (validateInputs st)), isLoading := True\<rparr>) = Some p"
      using p by simp
    note r = makeApiCall_passes[OF v p c]
    show "?C"
    proof (cases ok)
      case True
      with h have h': "http be = Responds True d" by simp
      note k = charged_call(2,4)[OF h' q]
      show ?thesis unfolding r k using True by simp
    next
      case False
      with h have h': "http be = Responds False d" by simp
      note k = uncharged_call(2,4)[OF h']
      show ?thesis unfolding r k using False by simp
    qed
  qed
  have b: "(snd (validateInputs st) \<and> profile st = Some p \<and> 1 \<le> p_credits p
            \<and> (http be = Fetch_rejects \<or> http be = Json_rejects ok) \<longrightarrow>
          makeApiCall be usr (st, w) =
            (st\<lparr>errors := errors (fst (validateInputs st)), isLoading := False\<rparr>,
             w\<lparr>http_log := http_log w @ [request_url st],
               toasts := toasts w @ [Toast_request_failed]\<rparr>))"
    (is "?H \<longrightarrow> ?C")
  proof (rule impI)
    assume "?H"
    then have v: "snd (validateInputs st)" and p: "profile st = Some p" and c: "1 \<le> p_credits p"
      and h: "http be = Fetch_rejects \<or> http be = Json_rejects ok"
      by simp_all
    note r = makeApiCall_passes[OF v p c]
    show "?C"
      unfolding r try_block_rejects[OF h] by (simp add: show_toast_def)
  qed
  have a': "(snd (validateInputs_ext st') \<and> profile st' = Some p \<and> 1 \<le> p_credits p \<and> http be = Responds ok d \<longrightarrow>
          store_log (snd (makeApiCall_ext be usr (st', w))) =
            store_log w @
              [Insert_api_call \<lparr>nc_user_id = u_id usr, nc_bin = bin st', nc_quantity = quantity st',
                                nc_credits_used = 1, nc_success = ok,
                                nc_response_data = (if ok then Some d else None),
                                nc_error_message =
                                  (if ok then None
                                   else Some (or_else (get_prop d ''error'') (JStr ''Unknown error'')))\<rparr>]
              @ (if ok then [Update_credits (u_id usr) (p_credits p - 1)] else [])
              @ (if ok \<and> d = JNull then [] else [Select_recent_calls (u_id usr)])
          \<and> api_calls (snd (makeApiCall_ext be usr (st', w))) =
               (if insert_fault be = None
                then api_calls w @
                  [\<lparr>c_id = gen_random_uuid be, c_user_id = u_id usr, c_bin = bin st',
                    c_quantity = quantity st', c_credits_used = 1, c_success = ok,
                    c_response_data = (if ok then Some d else None),
                    c_error_message =
                      (if ok then None
                       else Some (or_else (get_prop d ''error'') (JStr ''Unknown error''))),
                    c_created_at = now be\<rparr>]
                else api_calls w))"
    (is "?H \<longrightarrow> ?C")
  proof (rule impI)
    assume "?H"
    then have v: "snd (validateInputs_ext st')" and p: "profile st' = Some p" and c: "1 \<le> p_credits p"
      and h: "http be = Responds ok d"
      by simp_all
    have q: "profile (st'\<lparr>errors := errors (fst (validateInputs_ext st')), isLoading := True\<rparr>) = Some p"
      using p by simp
    note r = makeApiCall_ext_passes[OF v p c]
    show "?C"
    proof (cases ok)
      case True
      with h have h': "http be = Responds True d" by simp
      note k = charged_call(2,4)[OF h' q]
      show ?thesis unfolding r k using True by simp
    next
      case False
      with h have h': "http be = Responds False d" by simp
      note k = uncharged_call(2,4)[OF h']
      show ?thesis unfolding r k using False by simp
    qed
  qed
  have b': "(snd (validateInputs_ext st') \<and> profile st' = Some p \<and> 1 \<le> p_credits p
            \<and> (http be = Fetch_rejects \<or> http be = Json_rejects ok) \<longrightarrow>
          makeApiCall_ext be usr (st', w) =
            (st'\<lparr>errors := errors (fst (validateInputs_ext st')), isLoading := False\<rparr>,
             w\<lparr>http_log := http_log w @ [request_url_ext st'],
               toasts := toasts w @ [Toast_request_failed]\<rparr>))"
    (is "?H \<longrightarrow> ?C")
  proof (rule impI)
    assume "?H"
    then have v: "snd (validateInputs_ext st')" and p: "profile st' = Some p" and c: "1 \<le> p_credits p"
      and h: "http be = Fetch_rejects \<or> http be = Json_rejects ok"
      by simp_all
    note r = makeApiCall_ext_passes[OF v p c]
    show "?C"
      unfolding r try_block_rejects[OF h] by (simp add: show_toast_def)
  qed
  from a b a' b' show ?thesis by (intro conjI)
qed

section \<open>The claims about makeApiCall on the example inputs\<close>

lemma ex_valid:
  "snd (validateInputs (ex_state\<lparr>profile := pr\<rparr>))"
  "snd (validateInputs_ext (ex_state_ext\<lparr>profile := pr\<rparr>))"
  by (simp_all add: validateInputs_snd validateInputs_ext_snd ex_defs schema_defs)

lemma ex_errors:
  "errors (fst (validateInputs (ex_state\<lparr>profile := pr\<rparr>))) = []"
  "errors (fst (validateInputs_ext (ex_state_ext\<lparr>profile := pr\<rparr>))) = []"
  by (simp_all add: validateInputs_fst validateInputs_ext_fst ex_defs schema_defs)

lemma ex_urls:
  "request_url (ex_state\<lparr>profile := pr\<rparr>) = ''https://cc.yeasirar.xyz/gen?bin=401658&qty=10''"
  "request_url_ext (ex_state_ext\<lparr>profile := pr\<rparr>)
     = ''https://cc.yeasirar.xyz/gen?bin=401658&qty=10&mon=12&yr=2028''"
  by (simp_all add: request_url_def request_url_ext_def ex_defs number_to_string_def digit_char_def)

text \<open>
  An instance of claim C1: the example inputs with a balance of 0.
\<close>

theorem makeApiCall_insufficient_credits_witness:
  "profile (ex_state\<lparr>profile := Some (ex_profile\<lparr>p_credits := 0\<rparr>)\<rparr>)
     = Some (ex_profile\<lparr>p_credits := 0\<rparr>)
   \<and> p_credits (ex_profile\<lparr>p_credits := 0\<rparr>) < 1
   \<and> snd (validateInputs (ex_state\<lparr>profile := Some (ex_profile\<lparr>p_credits := 0\<rparr>)\<rparr>))
   \<and> makeApiCall ex_backend ex_user
         (ex_state\<lparr>profile := Some (ex_profile\<lparr>p_credits := 0\<rparr>)\<rparr>, ex_world)
       = (ex_state\<lparr>profile := Some (ex_profile\<lparr>p_credits := 0\<rparr>)\<rparr>,
          ex_world\<lparr>toasts := [Toast_insufficient_credits]\<rparr>)
   \<and> snd (validateInputs_ext (ex_state_ext\<lparr>profile := Some (ex_profile\<lparr>p_credits := 0\<rparr>)\<rparr>))
   \<and> makeApiCall_ext ex_backend ex_user
         (ex_state_ext\<lparr>profile := Some (ex_profile\<lparr>p_credits := 0\<rparr>)\<rparr>, ex_world)
       = (ex_state_ext\<lparr>profile := Some (ex_profile\<lparr>p_credits := 0\<rparr>)\<rparr>,
          ex_world\<lparr>toasts := [Toast_insufficient_credits]\<rparr>)"
proof -
  have e: "errors ex_state = []" "errors ex_state_ext = []" "toasts ex_world = []"
    by (simp_all add: ex_defs)
  show ?thesis
    using makeApiCall_insufficient_credits
            [where st = "ex_state\<lparr>profile := Some (ex_profile\<lparr>p_credits := 0\<rparr>)\<rparr>"
               and st' = "ex_state_ext\<lparr>profile := Some (ex_profile\<lparr>p_credits := 0\<rparr>)\<rparr>"
               and p = "ex_profile\<lparr>p_credits := 0\<rparr>"
               and be = ex_backend and usr = ex_user and w = ex_world]
    by (simp add: ex_valid ex_errors show_toast_def e)
qed

text \<open>
  Claim C1 as stated fails on the notification: with a balance of 0 and the empty prefix
  (the initial value of the input), validation returns first and no insufficient-credit
  notification is shown.
\<close>

theorem makeApiCall_insufficient_credits_counterexample:
  "p_credits (ex_profile\<lparr>p_credits := 0\<rparr>) < 1
   \<and> toasts (snd (makeApiCall ex_backend ex_user
         (ex_state\<lparr>profile := Some (ex_profile\<lparr>p_credits := 0\<rparr>), bin := ''''\<rparr>, ex_world))) = []
   \<and> toasts (snd (makeApiCall_ext ex_backend ex_user
         (ex_state_ext\<lparr>profile := Some (ex_profile\<lparr>p_credits := 0\<rparr>), bin := ''''\<rparr>, ex_world))) = []"
proof -
  have v: "\<not> snd (validateInputs (ex_state\<lparr>profile := Some (ex_profile\<lparr>p_credits := 0\<rparr>), bin := ''''\<rparr>))"
    by (simp add: validateInputs_snd schema_defs)
  have v': "\<not> snd (validateInputs_ext
                     (ex_state_ext\<lparr>profile := Some (ex_profile\<lparr>p_credits := 0\<rparr>), bin := ''''\<rparr>))"
    by (simp add: validateInputs_ext_snd schema_defs)
  have t: "toasts ex_world = []"
    by (simp add: ex_world_def)
  show ?thesis
    by (simp add: makeApiCall_gate makeApiCall_ext_gate v v' t)
qed

text \<open>
  The example of claim C2: prefix 401658, quantity 10, balance 3. The balance becomes 2
  in memory and in the store, and one record with quantity 10, one credit used and
  success is inserted.
\<close>

theorem makeApiCall_success_witness:
  "snd (validateInputs ex_state) \<and> snd (validateInputs_ext ex_state_ext)
   \<and> profile ex_state = Some ex_profile \<and> profile ex_state_ext = Some ex_profile
   \<and> p_credits ex_profile = 3
   \<and> http ex_backend = Responds True (JObj [(''live_cards_found'', JNum 10)])
   \<and> profile (fst (makeApiCall ex_backend ex_user (ex_state, ex_world)))
       = Some (ex_profile\<lparr>p_credits := 2\<rparr>)
   \<and> profiles (snd (makeApiCall ex_backend ex_user (ex_state, ex_world)))
       = [ex_profile\<lparr>p_credits := 2\<rparr>]
   \<and> api_calls (snd (makeApiCall ex_backend ex_user (ex_state, ex_world)))
       = [\<lparr>c_id = ''row-1'', c_user_id = ''user-1'', c_bin = ''401658'', c_quantity = 10,
           c_credits_used = 1, c_success = True,
           c_response_data = Some (JObj [(''live_cards_found'', JNum 10)]),
           c_error_message = None, c_created_at = 100\<rparr>]
   \<and> http_log (snd (makeApiCall ex_backend ex_user (ex_state, ex_world)))
       = [''https://cc.yeasirar.xyz/gen?bin=401658&qty=10'']
   \<and> profile (fst (makeApiCall_ext ex_backend ex_user (ex_state_ext, ex_world)))
       = Some (ex_profile\<lparr>p_credits := 2\<rparr>)
   \<and> profiles (snd (makeApiCall_ext ex_backend ex_user (ex_state_ext, ex_world)))
       = [ex_profile\<lparr>p_credits := 2\<rparr>]
   \<and> api_calls (snd (makeApiCall_ext ex_backend ex_user (ex_state_ext, ex_world)))
       = [\<lparr>c_id = ''row-1'', c_user_id = ''user-1'', c_bin = ''401658'', c_quantity = 10,
           c_credits_used = 1, c_success = True,
           c_response_data = Some (JObj [(''live_cards_found'', JNum 10)]),
           c_error_message = None, c_created_at = 100\<rparr>]
   \<and> http_log (snd (makeApiCall_ext ex_backend ex_user (ex_state_ext, ex_world)))
       = [''https://cc.yeasirar.xyz/gen?bin=401658&qty=10&mon=12&yr=2028'']"
proof -
  have v: "snd (validateInputs ex_state)" "snd (validateInputs_ext ex_state_ext)"
    using ex_valid[of "profile ex_state"] ex_valid(2)[of "profile ex_state_ext"] by simp_all
  have u: "request_url ex_state = ''https://cc.yeasirar.xyz/gen?bin=401658&qty=10''"
    "request_url_ext ex_state_ext = ''https://cc.yeasirar.xyz/gen?bin=401658&qty=10&mon=12&yr=2028''"
    using ex_urls(1)[of "profile ex_state"] ex_urls(2)[of "profile ex_state_ext"] by simp_all
  have f: "profile ex_state = Some ex_profile" "profile ex_state_ext = Some ex_profile"
    "p_credits ex_profile = 3" "http ex_backend = Responds True (JObj [(''live_cards_found'', JNum 10)])"
    "insert_fault ex_backend = None" "update_fault ex_backend = None"
    "gen_random_uuid ex_backend = ''row-1''" "now ex_backend = 100" "u_id ex_user = ''user-1''"
    "bin ex_state = ''401658''" "quantity ex_state = 10"
    "bin ex_state_ext = ''401658''" "quantity ex_state_ext = 10"
    "http_log ex_world = []" "api_calls ex_world = []" "profiles ex_world = [ex_profile]"
    "p_user_id ex_profile = ''user-1''"
    by (simp_all add: ex_defs)
  show ?thesis
    using makeApiCall_success
            [where st = ex_state and st' = ex_state_ext and p = ex_profile and be = ex_backend
               and usr = ex_user and w = ex_world and d = "JObj [(''live_cards_found'', JNum 10)]"]
    by (simp add: v u f)
qed

lemma ex_facts:
  "profile ex_state = Some ex_profile" "profile ex_state_ext = Some ex_profile"
  "p_credits ex_profile = 3" "p_user_id ex_profile = ''user-1''" "u_id ex_user = ''user-1''"
  "bin ex_state = ''401658''" "quantity ex_state = 10"
  "bin ex_state_ext = ''401658''" "quantity ex_state_ext = 10"
  "errors ex_state = []" "errors ex_state_ext = []"
  "isLoading ex_state = False" "isLoading ex_state_ext = False"
  "http_log ex_world = []" "store_log ex_world = []" "api_calls ex_world = []"
  "profiles ex_world = [ex_profile]" "toasts ex_world = []"
  by (simp_all add: ex_defs)

lemma ex_backend_facts:
  "http (ex_backend\<lparr>http := h\<rparr>) = h"
  "insert_fault (ex_backend\<lparr>http := h\<rparr>) = None" "update_fault (ex_backend\<lparr>http := h\<rparr>) = None"
  "select_fault (ex_backend\<lparr>http := h\<rparr>) = None"
  "gen_random_uuid (ex_backend\<lparr>http := h\<rparr>) = ''row-1''" "now (ex_backend\<lparr>http := h\<rparr>) = 100"
  by (simp_all add: ex_defs)

lemma ex_valid0:
  "snd (validateInputs ex_state)" "snd (validateInputs_ext ex_state_ext)"
  "errors (fst (validateInputs ex_state)) = []" "errors (fst (validateInputs_ext ex_state_ext)) = []"
  "request_url ex_state = ''https://cc.yeasirar.xyz/gen?bin=401658&qty=10''"
  "request_url_ext ex_state_ext = ''https://cc.yeasirar.xyz/gen?bin=401658&qty=10&mon=12&yr=2028''"
  using ex_valid(1)[of "profile ex_state"] ex_valid(2)[of "profile ex_state_ext"]
    ex_errors(1)[of "profile ex_state"] ex_errors(2)[of "profile ex_state_ext"]
    ex_urls(1)[of "profile ex_state"] ex_urls(2)[of "profile ex_state_ext"]
  by simp_all

text \<open>
  Instances of claim C3: the generator answers with an error status and the body
  \<^verbatim>\<open>{"error": "Invalid BIN"}\<close>, and with the body \<^verbatim>\<open>{"error": null}\<close>, for which the
  recorded message is "Unknown error".
\<close>

theorem makeApiCall_failure_witness:
  "snd (validateInputs ex_state) \<and> snd (validateInputs_ext ex_state_ext)
   \<and> profile ex_state = Some ex_profile \<and> profile ex_state_ext = Some ex_profile
   \<and> p_credits ex_profile = 3
   \<and> http (ex_backend\<lparr>http := Responds False (JObj [(''error'', JStr ''Invalid BIN'')])\<rparr>)
       = Responds False (JObj [(''error'', JStr ''Invalid BIN'')])
   \<and> profile (fst (makeApiCall
         (ex_backend\<lparr>http := Responds False (JObj [(''error'', JStr ''Invalid BIN'')])\<rparr>)
         ex_user (ex_state, ex_world))) = Some ex_profile
   \<and> profiles (snd (makeApiCall
         (ex_backend\<lparr>http := Responds False (JObj [(''error'', JStr ''Invalid BIN'')])\<rparr>)
         ex_user (ex_state, ex_world))) = [ex_profile]
   \<and> api_calls (snd (makeApiCall
         (ex_backend\<lparr>http := Responds False (JObj [(''error'', JStr ''Invalid BIN'')])\<rparr>)
         ex_user (ex_state, ex_world)))
       = [\<lparr>c_id = ''row-1'', c_user_id = ''user-1'', c_bin = ''401658'', c_quantity = 10,
           c_credits_used = 1, c_success = False, c_response_data = None,
           c_error_message = Some (JStr ''Invalid BIN''), c_created_at = 100\<rparr>]
   \<and> profile (fst (makeApiCall_ext
         (ex_backend\<lparr>http := Responds False (JObj [(''error'', JStr ''Invalid BIN'')])\<rparr>)
         ex_user (ex_state_ext, ex_world))) = Some ex_profile
   \<and> profiles (snd (makeApiCall_ext
         (ex_backend\<lparr>http := Responds False (JObj [(''error'', JStr ''Invalid BIN'')])\<rparr>)
         ex_user (ex_state_ext, ex_world))) = [ex_profile]
   \<and> api_calls (snd (makeApiCall_ext
         (ex_backend\<lparr>http := Responds False (JObj [(''error'', JStr ''Invalid BIN'')])\<rparr>)
         ex_user (ex_state_ext, ex_world)))
       = [\<lparr>c_id = ''row-1'', c_user_id = ''user-1'', c_bin = ''401658'', c_quantity = 10,
           c_credits_used = 1, c_success = False, c_response_data = None,
           c_error_message = Some (JStr ''Invalid BIN''), c_created_at = 100\<rparr>]
   \<and> api_calls (snd (makeApiCall
         (ex_backend\<lparr>http := Responds False (JObj [(''error'', JNull)])\<rparr>)
         ex_user (ex_state, ex_world)))
       = [\<lparr>c_id = ''row-1'', c_user_id = ''user-1'', c_bin = ''401658'', c_quantity = 10,
           c_credits_used = 1, c_success = False, c_response_data = None,
           c_error_message = Some (JStr ''Unknown error''), c_created_at = 100\<rparr>]
   \<and> api_calls (snd (makeApiCall_ext
         (ex_backend\<lparr>http := Responds False (JObj [(''error'', JNull)])\<rparr>)
         ex_user (ex_state_ext, ex_world)))
       = [\<lparr>c_id = ''row-1'', c_user_id = ''user-1'', c_bin = ''401658'', c_quantity = 10,
           c_credits_used = 1, c_success = False, c_response_data = None,
           c_error_message = Some (JStr ''Unknown error''), c_created_at = 100\<rparr>]"
  using makeApiCall_failure
          [where st = ex_state and st' = ex_state_ext and p = ex_profile
             and be = "ex_backend\<lparr>http := Responds False (JObj [(''error'', JStr ''Invalid BIN'')])\<rparr>"
             and usr = ex_user and w = ex_world and d = "JObj [(''error'', JStr ''Invalid BIN'')]"]
        makeApiCall_failure
          [where st = ex_state and st' = ex_state_ext and p = ex_profile
             and be = "ex_backend\<lparr>http := Responds False (JObj [(''error'', JNull)])\<rparr>"
             and usr = ex_user and w = ex_world and d = "JObj [(''error'', JNull)]"]
  by (simp add: ex_valid0 ex_facts ex_backend_facts or_else_def)

text \<open>
  Claim C2 as stated fails when the success status comes with a body that is not JSON
  (an empty body, for one): \<^verbatim>\<open>response.json()\<close> rejects before the insert and the update, so
  with the example inputs no store request is issued, no record is inserted and the
  balance stays 3 in the store and in memory.
\<close>

theorem makeApiCall_success_counterexample:
  "snd (validateInputs ex_state) \<and> snd (validateInputs_ext ex_state_ext)
   \<and> profile ex_state = Some ex_profile \<and> profile ex_state_ext = Some ex_profile
   \<and> p_credits ex_profile = 3
   \<and> http (ex_backend\<lparr>http := Json_rejects True\<rparr>) = Json_rejects True
   \<and> store_log (snd (makeApiCall (ex_backend\<lparr>http := Json_rejects True\<rparr>) ex_user
                        (ex_state, ex_world))) = []
   \<and> api_calls (snd (makeApiCall (ex_backend\<lparr>http := Json_rejects True\<rparr>) ex_user
                        (ex_state, ex_world))) = []
   \<and> profiles (snd (makeApiCall (ex_backend\<lparr>http := Json_rejects True\<rparr>) ex_user
                       (ex_state, ex_world))) = [ex_profile]
   \<and> profile (fst (makeApiCall (ex_backend\<lparr>http := Json_rejects True\<rparr>) ex_user
                      (ex_state, ex_world))) = Some ex_profile
   \<and> store_log (snd (makeApiCall_ext (ex_backend\<lparr>http := Json_rejects True\<rparr>) ex_user
                        (ex_state_ext, ex_world))) = []
   \<and> api_calls (snd (makeApiCall_ext (ex_backend\<lparr>http := Json_rejects True\<rparr>) ex_user
                        (ex_state_ext, ex_world))) = []
   \<and> profiles (snd (makeApiCall_ext (ex_backend\<lparr>http := Json_rejects True\<rparr>) ex_user
                       (ex_state_ext, ex_world))) = [ex_profile]
   \<and> profile (fst (makeApiCall_ext (ex_backend\<lparr>http := Json_rejects True\<rparr>) ex_user
                      (ex_state_ext, ex_world))) = Some ex_profile"
proof -
  have c: "1 \<le> p_credits ex_profile"
    by (simp add: ex_facts)
  have h: "http (ex_backend\<lparr>http := Json_rejects True\<rparr>) = Fetch_rejects
           \<or> http (ex_backend\<lparr>http := Json_rejects True\<rparr>) = Json_rejects True"
    by simp
  note r = makeApiCall_passes[OF ex_valid0(1) ex_facts(1) c]
    makeApiCall_ext_passes[OF ex_valid0(2) ex_facts(2) c]
  show ?thesis
    unfolding r try_block_rejects[OF h]
    by (simp add: ex_valid0 ex_facts show_toast_def)
qed

text \<open>
  Claim C3 as stated fails when the non-success status comes with a body that is not JSON
  (the HTML page of a gateway error, for one): \<^verbatim>\<open>response.json()\<close> rejects before the
  insert, so with the example inputs no store request is issued and no record with
  \<^verbatim>\<open>success = false\<close> is inserted.
\<close>

theorem makeApiCall_failure_counterexample:
  "snd (validateInputs ex_state) \<and> snd (validateInputs_ext ex_state_ext)
   \<and> profile ex_state = Some ex_profile \<and> profile ex_state_ext = Some ex_profile
   \<and> p_credits ex_profile = 3
   \<and> http (ex_backend\<lparr>http := Json_rejects False\<rparr>) = Json_rejects False
   \<and> store_log (snd (makeApiCall (ex_backend\<lparr>http := Json_rejects False\<rparr>) ex_user
                        (ex_state, ex_world))) = []
   \<and> api_calls (snd (makeApiCall (ex_backend\<lparr>http := Json_rejects False\<rparr>) ex_user
                        (ex_state, ex_world))) = []
   \<and> store_log (snd (makeApiCall_ext (ex_backend\<lparr>http := Json_rejects False\<rparr>) ex_user
                        (ex_state_ext, ex_world))) = []
   \<and> api_calls (snd (makeApiCall_ext (ex_backend\<lparr>http := Json_rejects False\<rparr>) ex_user
                        (ex_state_ext, ex_world))) = []"
proof -
  have c: "1 \<le> p_credits ex_profile"
    by (simp add: ex_facts)
  have h: "http (ex_backend\<lparr>http := Json_rejects False\<rparr>) = Fetch_rejects
           \<or> http (ex_backend\<lparr>http := Json_rejects False\<rparr>) = Json_rejects False"
    by simp
  note r = makeApiCall_passes[OF ex_valid0(1) ex_facts(1) c]
    makeApiCall_ext_passes[OF ex_valid0(2) ex_facts(2) c]
  show ?thesis
    unfolding r try_block_rejects[OF h]
    by (simp add: ex_valid0 ex_facts show_toast_def)
qed

text \<open>
  Instances of claim C4: an error status with the body \<^verbatim>\<open>null\<close>, and a body that is not
  JSON.
\<close>

theorem makeApiCall_records_response_witness:
  "snd (validateInputs ex_state) \<and> snd (validateInputs_ext ex_state_ext)
   \<and> profile ex_state = Some ex_profile \<and> profile ex_state_ext = Some ex_profile
   \<and> p_credits ex_profile = 3
   \<and> store_log (snd (makeApiCall (ex_backend\<lparr>http := Responds False JNull\<rparr>) ex_user
                        (ex_state, ex_world)))
       = [Insert_api_call \<lparr>nc_user_id = ''user-1'', nc_bin = ''401658'', nc_quantity = 10,
                           nc_credits_used = 1, nc_success = False, nc_response_data = None,
                           nc_error_message = Some (JStr ''Unknown error'')\<rparr>,
          Select_recent_calls ''user-1'']
   \<and> makeApiCall (ex_backend\<lparr>http := Json_rejects False\<rparr>) ex_user (ex_state, ex_world)
       = (ex_state, ex_world\<lparr>http_log := [''https://cc.yeasirar.xyz/gen?bin=401658&qty=10''],
                             toasts := [Toast_request_failed]\<rparr>)
   \<and> store_log (snd (makeApiCall_ext (ex_backend\<lparr>http := Responds False JNull\<rparr>) ex_user
                        (ex_state_ext, ex_world)))
       = [Insert_api_call \<lparr>nc_user_id = ''user-1'', nc_bin = ''401658'', nc_quantity = 10,
                           nc_credits_used = 1, nc_success = False, nc_response_data = None,
                           nc_error_message = Some (JStr ''Unknown error'')\<rparr>,
          Select_recent_calls ''user-1'']
   \<and> makeApiCall_ext (ex_backend\<lparr>http := Json_rejects False\<rparr>) ex_user (ex_state_ext, ex_world)
       = (ex_state_ext,
          ex_world\<lparr>http_log := [''https://cc.yeasirar.xyz/gen?bin=401658&qty=10&mon=12&yr=2028''],
                    toasts := [Toast_request_failed]\<rparr>)"
proof -
  have s: "ex_state\<lparr>errors := [], isLoading := False\<rparr> = ex_state"
    "ex_state_ext\<lparr>errors := [], isLoading := False\<rparr> = ex_state_ext"
    by (simp_all add: ex_defs)
  show ?thesis
    using makeApiCall_records_response
            [where st = ex_state and st' = ex_state_ext and p = ex_profile
               and be = "ex_backend\<lparr>http := Responds False JNull\<rparr>"
               and usr = ex_user and w = ex_world and d = JNull and ok = False]
          makeApiCall_records_response
            [where st = ex_state and st' = ex_state_ext and p = ex_profile
               and be = "ex_backend\<lparr>http := Json_rejects False\<rparr>"
               and usr = ex_user and w = ex_world and ok = False]
    by (simp add: ex_valid0 ex_facts ex_backend_facts or_else_def s)
qed

text \<open>
  Claim C4 as stated fails when the request itself throws: with the example inputs and a
  rejected \<^verbatim>\<open>fetch\<close> no store request is issued and the call table stays empty.
\<close>

theorem makeApiCall_transport_failure_counterexample:
  "snd (validateInputs ex_state) \<and> snd (validateInputs_ext ex_state_ext)
   \<and> profile ex_state = Some ex_profile \<and> profile ex_state_ext = Some ex_profile
   \<and> 1 \<le> p_credits ex_profile
   \<and> store_log (snd (makeApiCall (ex_backend\<lparr>http := Fetch_rejects\<rparr>) ex_user
                        (ex_state, ex_world))) = []
   \<and> api_calls (snd (makeApiCall (ex_backend\<lparr>http := Fetch_rejects\<rparr>) ex_user
                        (ex_state, ex_world))) = []
   \<and> store_log (snd (makeApiCall_ext (ex_backend\<lparr>http := Fetch_rejects\<rparr>) ex_user
                        (ex_state_ext, ex_world))) = []
   \<and> api_calls (snd (makeApiCall_ext (ex_backend\<lparr>http := Fetch_rejects\<rparr>) ex_user
                        (ex_state_ext, ex_world))) = []"
proof -
  have c: "1 \<le> p_credits ex_profile"
    by (simp add: ex_facts)
  have h: "http (ex_backend\<lparr>http := Fetch_rejects\<rparr>) = Fetch_rejects
           \<or> http (ex_backend\<lparr>http := Fetch_rejects\<rparr>) = Json_rejects False"
    by simp
  note r = makeApiCall_passes[OF ex_valid0(1) ex_facts(1) c]
    makeApiCall_ext_passes[OF ex_valid0(2) ex_facts(2) c]
  show ?thesis
    unfolding r try_block_rejects[OF h]
    by (simp add: ex_valid0 ex_facts show_toast_def)
qed

section \<open>Properties of fetchProfile\<close>

lemma filter_unique_key:
  "distinct (map f xs) \<Longrightarrow> x \<in> set xs \<Longrightarrow> filter (\<lambda>r. f r = f x) xs = [x]"
proof (induction xs)
  case Nil
  then show ?case by simp
next
  case (Cons a xs)
  show ?case
  proof (cases "a = x")
    case True
    from Cons.prems have "f x \<notin> f ` set xs" using True by simp
    then have "filter (\<lambda>r. f r = f x) xs = []"
      unfolding filter_empty_conv by (metis imageI)
    then show ?thesis using True by simp
  next
    case False
    with Cons.prems have x: "x \<in> set xs" and d: "distinct (map f xs)" and n: "f a \<notin> f ` set xs"
      by simp_all
    from n x have "f a \<noteq> f x" by auto
    then show ?thesis using Cons.IH[OF d x] by simp
  qed
qed

lemma select_profile_found:
  "select_fault be = None \<Longrightarrow> filter (\<lambda>r. p_user_id r = uid) (profiles w) = [row] \<Longrightarrow>
   select_profile be uid w = (Inr (Some row), w\<lparr>store_log := store_log w @ [Select_profile uid]\<rparr>)"
  by (simp add: select_profile_def issue_def Let_def)

lemma select_profile_absent:
  "select_fault be = None \<Longrightarrow> filter (\<lambda>r. p_user_id r = uid) (profiles w) = [] \<Longrightarrow>
   select_profile be uid w = (Inr None, w\<lparr>store_log := store_log w @ [Select_profile uid]\<rparr>)"
  by (simp add: select_profile_def issue_def Let_def)

lemma select_profile_fault:
  "select_fault be = Some e \<Longrightarrow>
   select_profile be uid w = (Inl e, w\<lparr>store_log := store_log w @ [Select_profile uid]\<rparr>)"
  by (simp add: select_profile_def issue_def Let_def)

text \<open>
  Claim C7. The profiles table has a unique \<^verbatim>\<open>user_id\<close>. When the store answers and a
  row of the user exists, \<open>fetchProfile\<close> makes that row the profile and writes nothing.
  When the store answers and no row of the user exists, it inserts a row with zero
  credits, the user's email and full name (\<^verbatim>\<open>null\<close> for a missing or empty name) and makes
  the inserted row, as the store returns it, the profile. When the select or the insert
  fails, it shows the notification "Failed to load profile data", leaves the profile and
  the table as they are and issues no further request.
\<close>

theorem fetchProfile_get_or_create:
  "(select_fault be = None \<and> distinct (map p_user_id (profiles w))
      \<and> row \<in> set (profiles w) \<and> p_user_id row = u_id usr \<longrightarrow>
      fetchProfile be usr (st, w) =
        (st\<lparr>profile := Some row\<rparr>,
         w\<lparr>store_log := store_log w @ [Select_profile (u_id usr)]\<rparr>))
   \<and> (select_fault be = None \<and> insert_fault be = None
      \<and> (\<forall>r \<in> set (profiles w). p_user_id r \<noteq> u_id usr) \<longrightarrow>
      fetchProfile be usr (st, w) =
        (st\<lparr>profile :=
              Some \<lparr>p_id = gen_random_uuid be, p_user_id = u_id usr, p_email = u_email usr,
                    p_full_name = or_null (u_full_name usr), p_credits = 0, p_is_admin = False,
                    p_created_at = now be\<rparr>\<rparr>,
         w\<lparr>store_log := store_log w @
              [Select_profile (u_id usr),
               Insert_profile \<lparr>np_user_id = u_id usr, np_email = u_email usr,
                               np_full_name = or_null (u_full_name usr), np_credits = 0\<rparr>],
           profiles := profiles w @
              [\<lparr>p_id = gen_random_uuid be, p_user_id = u_id usr, p_email = u_email usr,
                p_full_name = or_null (u_full_name usr), p_credits = 0, p_is_admin = False,
                p_created_at = now be\<rparr>]\<rparr>))
   \<and> (select_fault be = Some e \<longrightarrow>
      fetchProfile be usr (st, w) =
        (st, w\<lparr>store_log := store_log w @ [Select_profile (u_id usr)],
               toasts := toasts w @ [Toast_load_profile_failed]\<rparr>))
   \<and> (select_fault be = None \<and> insert_fault be = Some e
      \<and> (\<forall>r \<in> set (profiles w). p_user_id r \<noteq> u_id usr) \<longrightarrow>
      fetchProfile be usr (st, w) =
        (st, w\<lparr>store_log := store_log w @
                 [Select_profile (u_id usr),
                  Insert_profile \<lparr>np_user_id = u_id usr, np_email = u_email usr,
                                  np_full_name = or_null (u_full_name usr), np_credits = 0\<rparr>],
               toasts := toasts w @ [Toast_load_profile_failed]\<rparr>))"
  (is "(?H1 \<longrightarrow> ?C1) \<and> (?H2 \<longrightarrow> ?C2) \<and> (?H3 \<longrightarrow> ?C3) \<and> (?H4 \<longrightarrow> ?C4)")
proof (intro conjI; rule impI)
  assume "?H1"
  then have s: "select_fault be = None" and d: "distinct (map p_user_id (profiles w))"
    and m: "row \<in> set (profiles w)" and u: "p_user_id row = u_id usr"
    by simp_all
  have "filter (\<lambda>r. p_user_id r = u_id usr) (profiles w) = [row]"
    using filter_unique_key[OF d m] u by simp
  from select_profile_found[OF s this] show "?C1"
    by (simp add: fetchProfile_def)
next
  assume "?H2"
  then have s: "select_fault be = None" and i: "insert_fault be = None"
    and n: "\<forall>r \<in> set (profiles w). p_user_id r \<noteq> u_id usr"
    by simp_all
  from n have f: "filter (\<lambda>r. p_user_id r = u_id usr) (profiles w) = []"
    by (simp add: filter_empty_conv)
  from n have x: "\<not> list_ex (\<lambda>r. p_user_id r = u_id usr) (profiles w)"
    by (simp add: list_ex_iff)
  from select_profile_absent[OF s f] show "?C2"
    by (simp add: fetchProfile_def insert_profile_def issue_def Let_def i x)
next
  assume "?H3"
  from select_profile_fault[OF this] show "?C3"
    by (simp add: fetchProfile_def show_toast_def)
next
  assume "?H4"
  then have s: "select_fault be = None" and i: "insert_fault be = Some e"
    and n: "\<forall>r \<in> set (profiles w). p_user_id r \<noteq> u_id usr"
    by simp_all
  from n have f: "filter (\<lambda>r. p_user_id r = u_id usr) (profiles w) = []"
    by (simp add: filter_empty_conv)
  from select_profile_absent[OF s f] show "?C4"
    by (simp add: fetchProfile_def insert_profile_def issue_def Let_def i show_toast_def)
qed

text \<open>
  Instances of claim C7: the profile exists; it does not; the select fails; the insert
  fails.
\<close>

theorem fetchProfile_get_or_create_witness:
  "select_fault ex_backend = None \<and> insert_fault ex_backend = None
   \<and> distinct (map p_user_id (profiles ex_world))
   \<and> ex_profile \<in> set (profiles ex_world) \<and> p_user_id ex_profile = u_id ex_user
   \<and> fetchProfile ex_backend ex_user (ex_state\<lparr>profile := None\<rparr>, ex_world)
       = (ex_state, ex_world\<lparr>store_log := [Select_profile ''user-1'']\<rparr>)
   \<and> fetchProfile ex_backend ex_user (ex_state\<lparr>profile := None\<rparr>, ex_world\<lparr>profiles := []\<rparr>)
       = (ex_state\<lparr>profile :=
             Some \<lparr>p_id = ''row-1'', p_user_id = ''user-1'', p_email = Some ''ada@example.com'',
                   p_full_name = Some ''Ada'', p_credits = 0, p_is_admin = False,
                   p_created_at = 100\<rparr>\<rparr>,
          ex_world\<lparr>store_log :=
              [Select_profile ''user-1'',
               Insert_profile \<lparr>np_user_id = ''user-1'', np_email = Some ''ada@example.com'',
                               np_full_name = Some ''Ada'', np_credits = 0\<rparr>],
            profiles :=
              [\<lparr>p_id = ''row-1'', p_user_id = ''user-1'', p_email = Some ''ada@example.com'',
                p_full_name = Some ''Ada'', p_credits = 0, p_is_admin = False,
                p_created_at = 100\<rparr>]\<rparr>)
   \<and> fetchProfile (ex_backend\<lparr>select_fault := Some (StoreError ''timeout'')\<rparr>) ex_user
         (ex_state\<lparr>profile := None\<rparr>, ex_world)
       = (ex_state\<lparr>profile := None\<rparr>,
          ex_world\<lparr>store_log := [Select_profile ''user-1''],
                    toasts := [Toast_load_profile_failed]\<rparr>)
   \<and> fetchProfile (ex_backend\<lparr>insert_fault := Some (StoreError ''timeout'')\<rparr>) ex_user
         (ex_state\<lparr>profile := None\<rparr>, ex_world\<lparr>profiles := []\<rparr>)
       = (ex_state\<lparr>profile := None\<rparr>,
          ex_world\<lparr>store_log :=
              [Select_profile ''user-1'',
               Insert_profile \<lparr>np_user_id = ''user-1'', np_email = Some ''ada@example.com'',
                               np_full_name = Some ''Ada'', np_credits = 0\<rparr>],
            profiles := [],
            toasts := [Toast_load_profile_failed]\<rparr>)"
  using fetchProfile_get_or_create
          [where be = ex_backend and usr = ex_user and w = ex_world and row = ex_profile
             and st = "ex_state\<lparr>profile := None\<rparr>"]
        fetchProfile_get_or_create
          [where be = ex_backend and usr = ex_user and w = "ex_world\<lparr>profiles := []\<rparr>"
             and st = "ex_state\<lparr>profile := None\<rparr>"]
        fetchProfile_get_or_create
          [where be = "ex_backend\<lparr>select_fault := Some (StoreError ''timeout'')\<rparr>"
             and usr = ex_user and w = ex_world and e = "StoreError ''timeout''"
             and st = "ex_state\<lparr>profile := None\<rparr>"]
        fetchProfile_get_or_create
          [where be = "ex_backend\<lparr>insert_fault := Some (StoreError ''timeout'')\<rparr>"
             and usr = ex_user and w = "ex_world\<lparr>profiles := []\<rparr>" and e = "StoreError ''timeout''"
             and st = "ex_state\<lparr>profile := None\<rparr>"]
  by (simp add: ex_defs or_null_def)

section \<open>Properties of fetchRecentCalls\<close>

lemma order_created_at_desc_sorted:
  "sorted_wrt (\<lambda>a b. c_created_at b \<le> c_created_at a) (order_created_at_desc rows)"
proof -
  have "sorted (map (\<lambda>r. - c_created_at r) (order_created_at_desc rows))"
    unfolding order_created_at_desc_def by (rule sorted_sort_key)
  then show ?thesis
    by (simp add: sorted_map)
qed

lemma order_created_at_desc_set [simp]:
  "set (order_created_at_desc rows) = set rows"
  by (simp add: order_created_at_desc_def)

lemma order_created_at_desc_length [simp]:
  "length (order_created_at_desc rows) = length rows"
  by (simp add: order_created_at_desc_def)

lemma sorted_wrt_take_older:
  assumes s: "sorted_wrt R xs" and y: "y \<in> set xs" and n: "y \<notin> set (take k xs)"
    and x: "x \<in> set (take k xs)"
  shows "R x y"
proof -
  from s have "sorted_wrt R (take k xs @ drop k xs)" by simp
  note a = this[unfolded sorted_wrt_append]
  from y n have "y \<in> set (drop k xs)"
    by (metis Un_iff append_take_drop_id set_append)
  with a x show ?thesis
    by blast
qed

lemma fetchRecentCalls_eq:
  "fetchRecentCalls be usr (st, w) =
     ((case select_fault be of
         Some e \<Rightarrow> st
       | None \<Rightarrow> st\<lparr>recentCalls :=
                      take 5 (order_created_at_desc
                        (filter (\<lambda>c. c_user_id c = u_id usr) (api_calls w)))\<rparr>),
      w\<lparr>store_log := store_log w @ [Select_recent_calls (u_id usr)]\<rparr>)"
  by (simp add: fetchRecentCalls_def select_recent_calls_def issue_def Let_def
        split: option.splits)

text \<open>
  Claim C10. When the store answers, \<open>fetchRecentCalls\<close> displays at most five call
  records (five, or all of the user's when there are fewer), each a record of the table
  that belongs to the current user, ordered by creation time with the newest first, and
  every record of the user that is left out is no newer than any displayed one. When the
  store fails, the displayed list stays as it was. Either way one select is issued and
  nothing else changes in the world.
\<close>

theorem fetchRecentCalls_newest_five:
  "(select_fault be = None \<longrightarrow>
      recentCalls (fst (fetchRecentCalls be usr (st, w))) =
        take 5 (order_created_at_desc (filter (\<lambda>c. c_user_id c = u_id usr) (api_calls w)))
      \<and> length (recentCalls (fst (fetchRecentCalls be usr (st, w)))) =
           min 5 (length (filter (\<lambda>c. c_user_id c = u_id usr) (api_calls w)))
      \<and> (\<forall>c \<in> set (recentCalls (fst (fetchRecentCalls be usr (st, w)))).
            c \<in> set (api_calls w) \<and> c_user_id c = u_id usr)
      \<and> sorted_wrt (\<lambda>a b. c_created_at b \<le> c_created_at a)
           (recentCalls (fst (fetchRecentCalls be usr (st, w))))
      \<and> (\<forall>c \<in> set (api_calls w).
            c_user_id c = u_id usr
            \<and> c \<notin> set (recentCalls (fst (fetchRecentCalls be usr (st, w)))) \<longrightarrow>
            (\<forall>x \<in> set (recentCalls (fst (fetchRecentCalls be usr (st, w)))).
               c_created_at c \<le> c_created_at x)))
   \<and> (select_fault be = Some e \<longrightarrow>
      recentCalls (fst (fetchRecentCalls be usr (st, w))) = recentCalls st)
   \<and> snd (fetchRecentCalls be usr (st, w)) =
       w\<lparr>store_log := store_log w @ [Select_recent_calls (u_id usr)]\<rparr>"
  (is "(?H1 \<longrightarrow> ?C1) \<and> (?H2 \<longrightarrow> ?C2) \<and> ?C3")
proof (intro conjI)
  show "?H1 \<longrightarrow> ?C1"
  proof (rule impI)
    assume s: "?H1"
    define own where "own = filter (\<lambda>c. c_user_id c = u_id usr) (api_calls w)"
    define res where "res = take 5 (order_created_at_desc own)"
    have r: "recentCalls (fst (fetchRecentCalls be usr (st, w))) = res"
      by (simp add: fetchRecentCalls_eq s res_def own_def)
    have l: "length res = min 5 (length own)"
      by (simp add: res_def min.commute)
    have m: "\<forall>c \<in> set res. c \<in> set (api_calls w) \<and> c_user_id c = u_id usr"
    proof
      fix c assume "c \<in> set res"
      then have "c \<in> set (order_created_at_desc own)"
        unfolding res_def by (rule in_set_takeD)
      then show "c \<in> set (api_calls w) \<and> c_user_id c = u_id usr"
        by (simp add: own_def)
    qed
    have o: "sorted_wrt (\<lambda>a b. c_created_at b \<le> c_created_at a) res"
      unfolding res_def by (rule sorted_wrt_take[OF order_created_at_desc_sorted])
    have n: "\<forall>c \<in> set (api_calls w). c_user_id c = u_id usr \<and> c \<notin> set res \<longrightarrow>
               (\<forall>x \<in> set res. c_created_at c \<le> c_created_at x)"
    proof (intro ballI impI)
      fix c x
      assume c: "c \<in> set (api_calls w)" and h: "c_user_id c = u_id usr \<and> c \<notin> set res"
        and x: "x \<in> set res"
      from c h have "c \<in> set (order_created_at_desc own)"
        by (simp add: own_def)
      from sorted_wrt_take_older[OF order_created_at_desc_sorted this]
      show "c_created_at c \<le> c_created_at x"
        using h x unfolding res_def by blast
    qed
    have e: "res = take 5 (order_created_at_desc
                            (filter (\<lambda>c. c_user_id c = u_id usr) (api_calls w)))"
      by (simp add: res_def own_def)
    note l' = l[unfolded own_def]
    from e l' m o n show "?C1"
      unfolding r by (intro conjI)
  qed
  show "?H2 \<longrightarrow> ?C2"
    by (simp add: fetchRecentCalls_eq)
  show "?C3"
    by (simp add: fetchRecentCalls_eq)
qed

text \<open>
  An instance of claim C10: of the six example records of the user the five newest are
  displayed, newest first, and the other user's record is not; on a store error the list
  stays.
\<close>

theorem fetchRecentCalls_newest_five_witness:
  "select_fault ex_backend = None
   \<and> recentCalls (fst (fetchRecentCalls ex_backend ex_user
                          (ex_state, ex_world\<lparr>api_calls := ex_calls\<rparr>)))
       = [ex_call ''e'' ''user-1'' 40, ex_call ''g'' ''user-1'' 35, ex_call ''c'' ''user-1'' 30,
          ex_call ''f'' ''user-1'' 25, ex_call ''a'' ''user-1'' 10]
   \<and> recentCalls (fst (fetchRecentCalls (ex_backend\<lparr>select_fault := Some (StoreError ''timeout'')\<rparr>)
                          ex_user
                          (ex_state\<lparr>recentCalls := [ex_call ''a'' ''user-1'' 10]\<rparr>,
                           ex_world\<lparr>api_calls := ex_calls\<rparr>)))
       = [ex_call ''a'' ''user-1'' 10]"
proof -
  have f: "filter (\<lambda>c. c_user_id c = ''user-1'') ex_calls
           = [ex_call ''a'' ''user-1'' 10, ex_call ''c'' ''user-1'' 30, ex_call ''d'' ''user-1'' 5,
              ex_call ''e'' ''user-1'' 40, ex_call ''f'' ''user-1'' 25, ex_call ''g'' ''user-1'' 35]"
    by (simp add: ex_calls_def ex_call_def)
  have k: "c_created_at (ex_call i u t) = t" for i u t
    by (simp add: ex_call_def)
  have o: "take 5 (order_created_at_desc (filter (\<lambda>c. c_user_id c = ''user-1'') ex_calls))
           = [ex_call ''e'' ''user-1'' 40, ex_call ''g'' ''user-1'' 35, ex_call ''c'' ''user-1'' 30,
              ex_call ''f'' ''user-1'' 25, ex_call ''a'' ''user-1'' 10]"
    unfolding f order_created_at_desc_def by (simp add: k)
  show ?thesis
    using fetchRecentCalls_newest_five
            [where be = ex_backend and usr = ex_user and st = ex_state
               and w = "ex_world\<lparr>api_calls := ex_calls\<rparr>"]
          fetchRecentCalls_newest_five
            [where be = "ex_backend\<lparr>select_fault := Some (StoreError ''timeout'')\<rparr>"
               and usr = ex_user and st = "ex_state\<lparr>recentCalls := [ex_call ''a'' ''user-1'' 10]\<rparr>"
               and w = "ex_world\<lparr>api_calls := ex_calls\<rparr>" and e = "StoreError ''timeout''"]
    by (simp add: ex_backend_def ex_user_def o)
qed

end
